theory Spec2Isabelle
  imports Main "HOL-Library.Word"
begin

section \<open>Errors, panics and the HTTP client\<close>

text \<open>
  A Go \<^verbatim>\<open>error\<close> built by \<^verbatim>\<open>errors.New\<close> or \<^verbatim>\<open>fmt.Errorf\<close> is its message.
  An \<^verbatim>\<open>error\<close> interface value is \<open>error option\<close>, with \<open>None\<close> for \<^verbatim>\<open>nil\<close>;
  a pointer is an \<open>option\<close> in the same way.
\<close>

datatype error = Error string

fun message :: "error \<Rightarrow> string" where
  "message (Error m) = m"

text \<open>The verb \<^verbatim>\<open>%v\<close> of \<^verbatim>\<open>fmt\<close> applied to an error interface value.\<close>

fun fmt_v :: "error option \<Rightarrow> string" where
  "fmt_v None = ''<nil>''"
| "fmt_v (Some e) = message e"

text \<open>
  A call either returns its results or stops the process with a runtime panic
  (here: a nil pointer dereference).
\<close>

datatype 'a outcome = Panics | Returns 'a

text \<open>JSON values; an object keeps its members in the order they are written.\<close>

datatype json =
  JNull
| JBool bool
| JNum int
| JStr string
| JArr "json list"
| JObj "(string \<times> json) list"

text \<open>
  The methods \<^verbatim>\<open>get\<close>, \<^verbatim>\<open>post\<close>, \<^verbatim>\<open>put\<close> and \<^verbatim>\<open>delete\<close> of \<^verbatim>\<open>Client\<close>
  are defined in another file of the package. The client is therefore a record of the four
  capabilities. Each takes a path (and a payload, given by its JSON form) and the state
  \<open>'w\<close> of the network and the remote server, and yields the pair
  \<^verbatim>\<open>(*http.Response, error)\<close> and the new state.
\<close>

record ('resp, 'w) Client =
  get :: "string \<Rightarrow> 'w \<Rightarrow> ('resp option \<times> error option) \<times> 'w"
  post :: "string \<Rightarrow> json \<Rightarrow> 'w \<Rightarrow> ('resp option \<times> error option) \<times> 'w"
  put :: "string \<Rightarrow> json \<Rightarrow> 'w \<Rightarrow> ('resp option \<times> error option) \<times> 'w"
  delete :: "string \<Rightarrow> 'w \<Rightarrow> ('resp option \<times> error option) \<times> 'w"

section \<open>Resource models\<close>

text \<open>
  \<^verbatim>\<open>uint\<close> is taken at 64 bits. The declarations of \<^verbatim>\<open>APIObject\<close>,
  \<^verbatim>\<open>EscalationPolicy\<close>, \<^verbatim>\<open>Team\<close>, \<^verbatim>\<open>APIListObject\<close> and of the types a
  service rule points to are in another file of the package. \<^verbatim>\<open>APIObject\<close> has the field
  \<^verbatim>\<open>ID\<close> the operations read (\<^verbatim>\<open>s.ID\<close>, \<^verbatim>\<open>i.ID\<close>); whatever else it declares is
  the extension \<open>'x\<close> of the record. \<^verbatim>\<open>EscalationPolicy\<close> and \<^verbatim>\<open>Team\<close> are the type
  parameters \<open>'ep\<close> and \<open>'team\<close>. \<^verbatim>\<open>APIListObject\<close> has the three fields the page
  handlers fill.
\<close>

type_synonym uint = "64 word"

record APIObject =
  ID :: string

record 'x Integration =
  APIObject :: "'x APIObject_scheme"
  Name :: string
  Service :: "'x APIObject_scheme option"
  CreatedAt :: string
  Vendor :: "'x APIObject_scheme option"
  Type :: string
  IntegrationKey :: string
  IntegrationEmail :: string

record InlineModel =
  Type :: string
  Name :: string

record ScheduledAction =
  Type :: string
  At :: InlineModel
  ToUrgency :: string

record IncidentUrgencyType =
  Type :: string
  Urgency :: string

record SupportHours =
  Type :: string
  Timezone :: string
  StartTime :: string
  EndTime :: string
  DaysOfWeek :: "uint list"

record IncidentUrgencyRule =
  Type :: string
  Urgency :: string
  DuringSupportHours :: "IncidentUrgencyType option"
  OutsideSupportHours :: "IncidentUrgencyType option"

typedecl RuleConditions
typedecl RuleTimeFrame
typedecl RuleActionParameter
typedecl RuleActionExtraction
typedecl RuleActionSuppress
typedecl RuleActionSuspend

record ServiceRuleActions =
  Annotate :: "RuleActionParameter option"
  EventAction :: "RuleActionParameter option"
  Extractions :: "RuleActionExtraction option list"
  Priority :: "RuleActionParameter option"
  Severity :: "RuleActionParameter option"
  Suppress :: "RuleActionSuppress option"
  Suspend :: "RuleActionSuspend option"

record ServiceRule =
  ID :: string
  Self :: string
  Disabled :: bool
  Conditions :: "RuleConditions option"
  TimeFrame :: "RuleTimeFrame option"
  Position :: "int option"
  Actions :: "ServiceRuleActions option"

record ListServiceRulesResponse =
  Offset :: uint
  Limit :: uint
  More :: bool
  Total :: uint
  Rules :: "ServiceRule option list"

record AlertGroupParamsConfig =
  Timeout :: uint
  Aggregate :: string
  Fields :: "string list"

record AlertGroupingParameters =
  Type :: string
  Config :: AlertGroupParamsConfig

record ('x, 'ep, 'team) Service =
  APIObject :: "'x APIObject_scheme"
  Name :: string
  Description :: string
  AutoResolveTimeout :: "uint option"
  AcknowledgementTimeout :: "uint option"
  CreateAt :: string
  Status :: string
  LastIncidentTimestamp :: string
  Integrations :: "'x Integration list"
  EscalationPolicy :: 'ep
  Teams :: "'team list"
  IncidentUrgencyRule :: "IncidentUrgencyRule option"
  SupportHours :: "SupportHours option"
  ScheduledActions :: "ScheduledAction list"
  AlertCreation :: string
  AlertGrouping :: string
  AlertGroupingTimeout :: "uint option"
  AlertGroupingParameters :: "AlertGroupingParameters option"

record APIListObject =
  More :: bool
  Offset :: uint
  Limit :: uint

record ListServiceOptions = APIListObject +
  TeamIDs :: "string list"
  TimeZone :: string
  SortBy :: string
  Query :: string
  Includes :: "string list"

record 's ListServiceResponse = APIListObject +
  Services :: "'s list"

record GetServiceOptions =
  Includes :: "string list"

record GetIntegrationOptions =
  Includes :: "string list"

section \<open>Unwrapping the response envelope\<close>

text \<open>
  \<^verbatim>\<open>c.decodeJSON(resp, &target)\<close> is the argument \<open>decodeJSON\<close>: it reads the
  response and yields either a decode error or the decoded \<^verbatim>\<open>map[string]T\<close>.
\<close>

definition getServiceRuleFromResponse ::
  "('resp option \<Rightarrow> error + (string \<rightharpoonup> 'rule)) \<Rightarrow> 'resp option \<Rightarrow> error option
     \<Rightarrow> ('rule option \<times> 'resp option \<times> error option) outcome" where
  "getServiceRuleFromResponse decodeJSON resp err =
     (case err of
        Some e \<Rightarrow> Returns (None, None, Some e)
      | None \<Rightarrow>
          (case decodeJSON resp of
             Inl dErr \<Rightarrow>
               Returns (None, None,
                 Some (Error (''Could not decode JSON response: '' @ fmt_v (Some dErr))))
           | Inr target \<Rightarrow>
               (let rootNode = ''rule'' in
                case target rootNode of
                  None \<Rightarrow>
                    Returns (None, None,
                      Some (Error (''JSON response does not have '' @ rootNode @ '' field'')))
                | Some t \<Rightarrow> Returns (Some t, resp, None))))"

text \<open>
  On a request error \<^verbatim>\<open>getServiceFromResponse\<close> first reads \<^verbatim>\<open>resp.Body\<close> and
  \<^verbatim>\<open>resp.Status\<close> for a log line; with a nil \<^verbatim>\<open>resp\<close> that read is a nil pointer
  dereference. The log line itself is not modelled.
\<close>

definition getServiceFromResponse ::
  "('resp option \<Rightarrow> error + (string \<rightharpoonup> 'svc)) \<Rightarrow> 'resp option \<Rightarrow> error option
     \<Rightarrow> ('svc option \<times> error option) outcome" where
  "getServiceFromResponse decodeJSON resp err =
     (case err of
        Some e \<Rightarrow>
          (case resp of
             None \<Rightarrow> Panics
           | Some r \<Rightarrow> Returns (None, Some e))
      | None \<Rightarrow>
          (case decodeJSON resp of
             Inl dErr \<Rightarrow>
               Returns (None,
                 Some (Error (''Could not decode JSON response: '' @ fmt_v (Some dErr))))
           | Inr target \<Rightarrow>
               (let rootNode = ''service'' in
                case target rootNode of
                  None \<Rightarrow>
                    Returns (None,
                      Some (Error (''JSON response does not have '' @ rootNode @ '' field'')))
                | Some t \<Rightarrow> Returns (Some t, None))))"

text \<open>
  \<^verbatim>\<open>getIntegrationFromResponse\<close> formats \<^verbatim>\<open>err\<close>, not \<^verbatim>\<open>dErr\<close>, into its decode
  error; \<^verbatim>\<open>err\<close> is nil on that branch.
\<close>

definition getIntegrationFromResponse ::
  "('resp option \<Rightarrow> error + (string \<rightharpoonup> 'int)) \<Rightarrow> 'resp option \<Rightarrow> error option
     \<Rightarrow> ('int option \<times> error option) outcome" where
  "getIntegrationFromResponse decodeJSON resp err =
     (case err of
        Some e \<Rightarrow> Returns (None, Some e)
      | None \<Rightarrow>
          (case decodeJSON resp of
             Inl dErr \<Rightarrow>
               Returns (None,
                 Some (Error (''Could not decode JSON response: '' @ fmt_v err)))
           | Inr target \<Rightarrow>
               (let rootNode = ''integration'' in
                case target rootNode of
                  None \<Rightarrow>
                    Returns (None,
                      Some (Error (''JSON response does not have '' @ rootNode @ '' field'')))
                | Some t \<Rightarrow> Returns (Some t, None))))"

section \<open>Resource operations\<close>

text \<open>
  Parameters shared by the operations: \<open>c\<close> is the client, \<open>decodeJSON\<close> is
  \<^verbatim>\<open>c.decodeJSON\<close> at the type of the target, \<open>toJSON\<close> is the JSON form
  \<^verbatim>\<open>encoding/json\<close> gives a resource, \<open>query_Values\<close> is \<^verbatim>\<open>query.Values\<close> of
  go-querystring (it returns the values and an error) and \<open>Encode\<close> is the method
  \<^verbatim>\<open>Encode\<close> of \<^verbatim>\<open>url.Values\<close>. A \<^verbatim>\<open>map[string]T\<close> with the one key \<open>k\<close>, and
  a struct whose one field is tagged \<open>k\<close>, have the JSON form of an object with the one
  member \<open>k\<close>.
\<close>

definition GetService ::
  "(GetServiceOptions option \<Rightarrow> 'v \<times> error option) \<Rightarrow> ('v \<Rightarrow> string) \<Rightarrow> ('resp, 'w) Client
     \<Rightarrow> ('resp option \<Rightarrow> error + (string \<rightharpoonup> 'svc)) \<Rightarrow> string \<Rightarrow> GetServiceOptions option
     \<Rightarrow> 'w \<Rightarrow> ('svc option \<times> error option) outcome \<times> 'w" where
  "GetService query_Values Encode c decodeJSON id' opts w =
     (let (v, err) = query_Values opts;
          ((resp, err), w') = get c (''/services/'' @ id' @ ''?'' @ Encode v) w
      in (getServiceFromResponse decodeJSON resp err, w'))"

definition CreateService ::
  "('resp, 'w) Client \<Rightarrow> ('resp option \<Rightarrow> error + (string \<rightharpoonup> 'svc))
     \<Rightarrow> (('x, 'ep, 'team) Service \<Rightarrow> json) \<Rightarrow> ('x, 'ep, 'team) Service
     \<Rightarrow> 'w \<Rightarrow> ('svc option \<times> error option) outcome \<times> 'w" where
  "CreateService c decodeJSON toJSON s w =
     (let data = [(''service'', toJSON s)];
          ((resp, err), w') = post c ''/services'' (JObj data) w
      in (getServiceFromResponse decodeJSON resp err, w'))"

definition UpdateService ::
  "('resp, 'w) Client \<Rightarrow> ('resp option \<Rightarrow> error + (string \<rightharpoonup> 'svc))
     \<Rightarrow> (('x, 'ep, 'team) Service \<Rightarrow> json) \<Rightarrow> ('x, 'ep, 'team) Service
     \<Rightarrow> 'w \<Rightarrow> ('svc option \<times> error option) outcome \<times> 'w" where
  "UpdateService c decodeJSON toJSON s w =
     (let body = JObj [(''service'', toJSON s)];
          ((resp, err), w') = put c (''/services/'' @ APIObject.ID (Service.APIObject s)) body w
      in (getServiceFromResponse decodeJSON resp err, w'))"

definition DeleteService :: "('resp, 'w) Client \<Rightarrow> string \<Rightarrow> 'w \<Rightarrow> error option \<times> 'w" where
  "DeleteService c id' w =
     (let ((_, err), w') = delete c (''/services/'' @ id') w in (err, w'))"

definition CreateIntegration ::
  "('resp, 'w) Client \<Rightarrow> ('resp option \<Rightarrow> error + (string \<rightharpoonup> 'int))
     \<Rightarrow> ('x Integration \<Rightarrow> json) \<Rightarrow> string \<Rightarrow> 'x Integration
     \<Rightarrow> 'w \<Rightarrow> ('int option \<times> error option) outcome \<times> 'w" where
  "CreateIntegration c decodeJSON toJSON id' i w =
     (let data = [(''integration'', toJSON i)];
          ((resp, err), w') = post c (''/services/'' @ id' @ ''/integrations'') (JObj data) w
      in (getIntegrationFromResponse decodeJSON resp err, w'))"

definition GetIntegration ::
  "(GetIntegrationOptions \<Rightarrow> 'v \<times> error option) \<Rightarrow> ('v \<Rightarrow> string) \<Rightarrow> ('resp, 'w) Client
     \<Rightarrow> ('resp option \<Rightarrow> error + (string \<rightharpoonup> 'int)) \<Rightarrow> string \<Rightarrow> string
     \<Rightarrow> GetIntegrationOptions \<Rightarrow> 'w \<Rightarrow> ('int option \<times> error option) outcome \<times> 'w" where
  "GetIntegration query_Values Encode c decodeJSON serviceID integrationID opts w =
     (let (v, queryErr) = query_Values opts in
      case queryErr of
        Some e \<Rightarrow> (Returns (None, Some e), w)
      | None \<Rightarrow>
          (let ((resp, err), w') =
                 get c (''/services/'' @ serviceID @ ''/integrations/'' @ integrationID
                          @ ''?'' @ Encode v) w
           in (getIntegrationFromResponse decodeJSON resp err, w')))"

definition UpdateIntegration ::
  "('resp, 'w) Client \<Rightarrow> ('resp option \<Rightarrow> error + (string \<rightharpoonup> 'int))
     \<Rightarrow> ('x Integration \<Rightarrow> json) \<Rightarrow> string \<Rightarrow> 'x Integration
     \<Rightarrow> 'w \<Rightarrow> ('int option \<times> error option) outcome \<times> 'w" where
  "UpdateIntegration c decodeJSON toJSON serviceID i w =
     (let ((resp, err), w') =
            put c (''/services/'' @ serviceID @ ''/integrations/''
                     @ APIObject.ID (Integration.APIObject i)) (toJSON i) w
      in (getIntegrationFromResponse decodeJSON resp err, w'))"

definition DeleteIntegration ::
  "('resp, 'w) Client \<Rightarrow> string \<Rightarrow> string \<Rightarrow> 'w \<Rightarrow> error option \<times> 'w" where
  "DeleteIntegration c serviceID integrationID w =
     (let ((_, err), w') =
            delete c (''/services/'' @ serviceID @ ''/integrations/'' @ integrationID) w
      in (err, w'))"

definition GetServiceRule ::
  "('resp, 'w) Client \<Rightarrow> ('resp option \<Rightarrow> error + (string \<rightharpoonup> 'rule)) \<Rightarrow> string \<Rightarrow> string
     \<Rightarrow> 'w \<Rightarrow> ('rule option \<times> 'resp option \<times> error option) outcome \<times> 'w" where
  "GetServiceRule c decodeJSON serviceID ruleID w =
     (let ((resp, err), w') = get c (''/services/'' @ serviceID @ ''/rules/'' @ ruleID) w
      in (getServiceRuleFromResponse decodeJSON resp err, w'))"

definition DeleteServiceRule ::
  "('resp, 'w) Client \<Rightarrow> string \<Rightarrow> string \<Rightarrow> 'w \<Rightarrow> error option \<times> 'w" where
  "DeleteServiceRule c serviceID ruleID w =
     (let ((_, err), w') = delete c (''/services/'' @ serviceID @ ''/rules/'' @ ruleID) w
      in (err, w'))"

text \<open>A nil \<^verbatim>\<open>*ServiceRule\<close> has the JSON form \<^verbatim>\<open>null\<close>.\<close>

fun pointer_toJSON :: "('a \<Rightarrow> json) \<Rightarrow> 'a option \<Rightarrow> json" where
  "pointer_toJSON toJSON None = JNull"
| "pointer_toJSON toJSON (Some x) = toJSON x"

definition CreateServiceRule ::
  "('resp, 'w) Client \<Rightarrow> ('resp option \<Rightarrow> error + (string \<rightharpoonup> 'rule))
     \<Rightarrow> (ServiceRule \<Rightarrow> json) \<Rightarrow> string \<Rightarrow> ServiceRule option
     \<Rightarrow> 'w \<Rightarrow> ('rule option \<times> 'resp option \<times> error option) outcome \<times> 'w" where
  "CreateServiceRule c decodeJSON toJSON serviceID rule w =
     (let data = [(''rule'', pointer_toJSON toJSON rule)];
          ((resp, err), w') = post c (''/services/'' @ serviceID @ ''/rules/'') (JObj data) w
      in (getServiceRuleFromResponse decodeJSON resp err, w'))"

definition UpdateServiceRule ::
  "('resp, 'w) Client \<Rightarrow> ('resp option \<Rightarrow> error + (string \<rightharpoonup> 'rule))
     \<Rightarrow> (ServiceRule \<Rightarrow> json) \<Rightarrow> string \<Rightarrow> string \<Rightarrow> ServiceRule option
     \<Rightarrow> 'w \<Rightarrow> ('rule option \<times> 'resp option \<times> error option) outcome \<times> 'w" where
  "UpdateServiceRule c decodeJSON toJSON serviceID ruleID rule w =
     (let data = [(''rule'', pointer_toJSON toJSON rule)];
          ((resp, err), w') =
            put c (''/services/'' @ serviceID @ ''/rules/'' @ ruleID) (JObj data) w
      in (getServiceRuleFromResponse decodeJSON resp err, w'))"

section \<open>Pagination\<close>

text \<open>
  Modelled from the spec: \<^verbatim>\<open>pagedGet\<close>, the pagination driver of \<^verbatim>\<open>Client\<close>, which is
  defined in another file of the package. The spec has it call the endpoint repeatedly, hand each
  response to the per-page handler, stop with the error of the first page that fails,
  request the next page at the previous page's offset plus its limit, and stop when a
  page reports no more pages. The first page is requested at offset 0. How the offset is
  written into the request path is the parameter \<open>with_offset\<close>. The handler's captured
  accumulator is the state \<open>acc\<close>. The loop need not end (a server may report more pages
  for ever), so the result is an \<open>option\<close>, with \<open>None\<close> for a call that never returns.
\<close>

partial_function (option) pagedGet_from ::
  "('resp, 'w) Client \<Rightarrow> (string \<Rightarrow> uint \<Rightarrow> string) \<Rightarrow> string
     \<Rightarrow> ('resp option \<Rightarrow> 'acc \<Rightarrow> (APIListObject \<times> error option) \<times> 'acc)
     \<Rightarrow> uint \<Rightarrow> 'acc \<Rightarrow> 'w \<Rightarrow> (error option \<times> 'acc \<times> 'w) option" where
  "pagedGet_from c with_offset basePath handler nextOffset acc w =
     (case get c (with_offset basePath nextOffset) w of
        ((response, Some err), w') \<Rightarrow> Some (Some err, acc, w')
      | ((response, None), w') \<Rightarrow>
          (case handler response acc of
             ((pageInfo, Some err), acc') \<Rightarrow> Some (Some err, acc', w')
           | ((pageInfo, None), acc') \<Rightarrow>
               if More pageInfo
               then pagedGet_from c with_offset basePath handler
                      (Offset pageInfo + Limit pageInfo) acc' w'
               else Some (None, acc', w')))"

definition pagedGet ::
  "('resp, 'w) Client \<Rightarrow> (string \<Rightarrow> uint \<Rightarrow> string) \<Rightarrow> string
     \<Rightarrow> ('resp option \<Rightarrow> 'acc \<Rightarrow> (APIListObject \<times> error option) \<times> 'acc)
     \<Rightarrow> 'acc \<Rightarrow> 'w \<Rightarrow> (error option \<times> 'acc \<times> 'w) option" where
  "pagedGet c with_offset basePath handler acc w =
     pagedGet_from c with_offset basePath handler 0 acc w"

text \<open>
  The closure \<^verbatim>\<open>responseHandler\<close> of \<^verbatim>\<open>ListServicesPaginated\<close>; the captured slice
  \<^verbatim>\<open>services\<close> is passed in and returned. A slice is a list; the nil slice is the
  empty list.
\<close>

definition services_responseHandler ::
  "('resp option \<Rightarrow> error + 'svc ListServiceResponse) \<Rightarrow> 'resp option \<Rightarrow> 'svc list
     \<Rightarrow> (APIListObject \<times> error option) \<times> 'svc list" where
  "services_responseHandler decodeJSON response services =
     (case decodeJSON response of
        Inl err \<Rightarrow> ((\<lparr>More = False, Offset = 0, Limit = 0\<rparr>, Some err), services)
      | Inr result \<Rightarrow>
          ((\<lparr>More = APIListObject.More result, Offset = APIListObject.Offset result,
             Limit = APIListObject.Limit result\<rparr>, None),
           services @ Services result))"

definition ListServicesPaginated ::
  "(ListServiceOptions \<Rightarrow> 'v \<times> error option) \<Rightarrow> ('v \<Rightarrow> string)
     \<Rightarrow> (string \<Rightarrow> uint \<Rightarrow> string) \<Rightarrow> ('resp, 'w) Client
     \<Rightarrow> ('resp option \<Rightarrow> error + 'svc ListServiceResponse) \<Rightarrow> ListServiceOptions
     \<Rightarrow> 'w \<Rightarrow> (('svc list \<times> error option) \<times> 'w) option" where
  "ListServicesPaginated query_Values Encode with_offset c decodeJSON opts w =
     (let services = [];
          (v, err) = query_Values opts in
      case err of
        Some e \<Rightarrow> Some (([], Some e), w)
      | None \<Rightarrow>
          (case pagedGet c with_offset (''/services?'' @ Encode v)
                  (services_responseHandler decodeJSON) services w of
             None \<Rightarrow> None
           | Some (Some e, services', w') \<Rightarrow> Some (([], Some e), w')
           | Some (None, services', w') \<Rightarrow> Some ((services', None), w')))"

text \<open>The closure \<^verbatim>\<open>responseHandler\<close> of \<^verbatim>\<open>ListServiceRules\<close>.\<close>

definition rules_responseHandler ::
  "('resp option \<Rightarrow> error + ListServiceRulesResponse) \<Rightarrow> 'resp option
     \<Rightarrow> ServiceRule option list \<Rightarrow> (APIListObject \<times> error option) \<times> ServiceRule option list" where
  "rules_responseHandler decodeJSON response rules =
     (case decodeJSON response of
        Inl err \<Rightarrow> ((\<lparr>More = False, Offset = 0, Limit = 0\<rparr>, Some err), rules)
      | Inr result \<Rightarrow>
          ((\<lparr>More = ListServiceRulesResponse.More result,
             Offset = ListServiceRulesResponse.Offset result,
             Limit = ListServiceRulesResponse.Limit result\<rparr>, None),
           rules @ Rules result))"

definition ListServiceRules ::
  "(string \<Rightarrow> uint \<Rightarrow> string) \<Rightarrow> ('resp, 'w) Client
     \<Rightarrow> ('resp option \<Rightarrow> error + ListServiceRulesResponse) \<Rightarrow> string
     \<Rightarrow> 'w \<Rightarrow> ((ListServiceRulesResponse option \<times> error option) \<times> 'w) option" where
  "ListServiceRules with_offset c decodeJSON serviceID w =
     (let rulesResponse =
            \<lparr>ListServiceRulesResponse.Offset = 0, Limit = 0, More = False, Total = 0, Rules = []\<rparr>;
          rules = [] in
      case pagedGet c with_offset (''/services/'' @ serviceID @ ''/rules'')
             (rules_responseHandler decodeJSON) rules w of
        None \<Rightarrow> None
      | Some (Some e, rules', w') \<Rightarrow> Some ((None, Some e), w')
      | Some (None, rules', w') \<Rightarrow> Some ((Some (rulesResponse\<lparr>Rules := rules'\<rparr>), None), w'))"

section \<open>Test clients and page sequences\<close>

text \<open>
  A client that records every call it receives, in order, and answers it from a fixed
  table. Its state is the list of calls so far.
\<close>

datatype call = GET string | POST string json | PUT string json | DELETE string

definition recorder :: "(call \<Rightarrow> 'resp option \<times> error option) \<Rightarrow> ('resp, call list) Client" where
  "recorder answer =
     \<lparr>get = (\<lambda>path log. (answer (GET path), log @ [GET path])),
      post = (\<lambda>path body log. (answer (POST path body), log @ [POST path body])),
      put = (\<lambda>path body log. (answer (PUT path body), log @ [PUT path body])),
      delete = (\<lambda>path log. (answer (DELETE path), log @ [DELETE path]))\<rparr>"

text \<open>
  A mock server that hands out a prepared list of responses, one per request, and fails
  with the given error once the list is used up. Its state is the list of responses left.
\<close>

definition serve :: "error \<Rightarrow> 'resp list \<Rightarrow> ('resp option \<times> error option) \<times> 'resp list" where
  "serve e w = (case w of [] \<Rightarrow> ((None, Some e), []) | r # rs \<Rightarrow> ((Some r, None), rs))"

definition mock_server :: "error \<Rightarrow> ('resp, 'resp list) Client" where
  "mock_server e =
     \<lparr>get = (\<lambda>path. serve e), post = (\<lambda>path body. serve e),
      put = (\<lambda>path body. serve e), delete = (\<lambda>path. serve e)\<rparr>"

text \<open>
  The page metadata of a decoded page, as the two page handlers extract it.
\<close>

definition services_pageInfo :: "'svc ListServiceResponse \<Rightarrow> APIListObject" where
  "services_pageInfo result =
     \<lparr>More = APIListObject.More result, Offset = APIListObject.Offset result,
      Limit = APIListObject.Limit result\<rparr>"

definition rules_pageInfo :: "ListServiceRulesResponse \<Rightarrow> APIListObject" where
  "rules_pageInfo result =
     \<lparr>More = ListServiceRulesResponse.More result,
      Offset = ListServiceRulesResponse.Offset result,
      Limit = ListServiceRulesResponse.Limit result\<rparr>"

text \<open>
  The first \<open>n\<close> pages a server delivers: starting from the given offset and state,
  each request succeeds and decodes to a page, and the next request is made at that page's
  offset plus its limit. The result is the pages in request order, the offset of the
  request after them and the state then; it is \<open>None\<close> when one of the \<open>n\<close>
  requests fails or does not decode.
\<close>

fun fetch_pages ::
  "('resp, 'w) Client \<Rightarrow> (string \<Rightarrow> uint \<Rightarrow> string) \<Rightarrow> string
     \<Rightarrow> ('resp option \<Rightarrow> error + 'page) \<Rightarrow> ('page \<Rightarrow> APIListObject)
     \<Rightarrow> nat \<Rightarrow> uint \<Rightarrow> 'w \<Rightarrow> ('page list \<times> uint \<times> 'w) option" where
  "fetch_pages c with_offset basePath decodeJSON pageInfo 0 offset w = Some ([], offset, w)"
| "fetch_pages c with_offset basePath decodeJSON pageInfo (Suc n) offset w =
     (case get c (with_offset basePath offset) w of
        ((response, Some err), w') \<Rightarrow> None
      | ((response, None), w') \<Rightarrow>
          (case decodeJSON response of
             Inl err \<Rightarrow> None
           | Inr page \<Rightarrow>
               (case fetch_pages c with_offset basePath decodeJSON pageInfo n
                       (Offset (pageInfo page) + Limit (pageInfo page)) w' of
                  None \<Rightarrow> None
                | Some (pages, offset', w'') \<Rightarrow> Some (page # pages, offset', w''))))"

text \<open>
  The request for a page at the given offset fails: either the request itself returns an
  error (transport or status), or its response does not decode. The result is the error
  and the state after the request.
\<close>

definition page_fails ::
  "('resp, 'w) Client \<Rightarrow> (string \<Rightarrow> uint \<Rightarrow> string) \<Rightarrow> string
     \<Rightarrow> ('resp option \<Rightarrow> error + 'page) \<Rightarrow> uint \<Rightarrow> 'w \<Rightarrow> (error \<times> 'w) option" where
  "page_fails c with_offset basePath decodeJSON offset w =
     (case get c (with_offset basePath offset) w of
        ((response, Some err), w') \<Rightarrow> Some (err, w')
      | ((response, None), w') \<Rightarrow>
          (case decodeJSON response of Inl err \<Rightarrow> Some (err, w') | Inr page \<Rightarrow> None))"

section \<open>JSON forms of the resource models\<close>

text \<open>
  \<^verbatim>\<open>encoding/json\<close> derives the JSON form of a struct from its field tags. The
  definitions below follow the tags of each struct field by field, on JSON values. Of the
  text form only one effect is modelled: a string is written coerced to valid UTF-8, each
  invalid byte replaced by U+FFFD, so a string value in a JSON value is the string as a
  parser delivers it. A field tagged \<^verbatim>\<open>omitempty\<close> is left
  out when it is the empty string, zero, a nil pointer or an empty slice; a field of
  struct type is always written. Reading an object stores each member in turn into the
  field of that key, so a key that is absent, or \<^verbatim>\<open>null\<close>, leaves the zero value, and
  of a repeated key the last member stands. Keys are matched exactly. A value of the wrong
  JSON kind is the error \<open>UnmarshalTypeError\<close>.
\<close>

definition UnmarshalTypeError :: error where
  "UnmarshalTypeError = Error ''json: cannot unmarshal value into Go value''"

definition and_then :: "error + 'a \<Rightarrow> ('a \<Rightarrow> error + 'b) \<Rightarrow> error + 'b" where
  "and_then r f = (case r of Inl e \<Rightarrow> Inl e | Inr x \<Rightarrow> f x)"

fun present :: "(string \<times> json option) list \<Rightarrow> (string \<times> json) list" where
  "present [] = []"
| "present ((k, None) # fs) = present fs"
| "present ((k, Some v) # fs) = (k, v) # present fs"

definition member :: "(string \<times> json) list \<Rightarrow> string \<Rightarrow> json" where
  "member ms k = fold (\<lambda>(k', v) found. if k' = k then v else found) ms JNull"

text \<open>
  The fields an embedded struct contributes to the struct around it: those whose key the
  outer struct does not declare itself (the less nested field wins).
\<close>

definition promoted :: "string list \<Rightarrow> (string \<times> 'a) list \<Rightarrow> (string \<times> 'a) list" where
  "promoted own ms = filter (\<lambda>(k, v). k \<notin> set own) ms"

text \<open>
  \<^verbatim>\<open>utf8.DecodeRuneInString\<close>, as far as the encoder uses it: the number of bytes of the
  rune a string begins with, and 0 when the string begins with no valid encoding (the
  library's \<^verbatim>\<open>RuneError\<close> of width 1). A lead byte of C2..DF takes one continuation
  byte, E0..EF two and F0..F4 three; the first continuation byte is narrowed after E0, ED,
  F0 and F4 (no overlong forms, no surrogates, nothing above U+10FFFF).
\<close>

definition in_range :: "nat \<Rightarrow> nat \<Rightarrow> char \<Rightarrow> bool" where
  "in_range lo hi c \<longleftrightarrow> lo \<le> of_char c \<and> (of_char c :: nat) \<le> hi"

fun rune_length :: "string \<Rightarrow> nat" where
  "rune_length [] = 0"
| "rune_length (c # cs) =
     (if in_range 0x00 0x7F c then 1
      else if in_range 0xC2 0xDF c then
        (case cs of
           c1 # _ \<Rightarrow> if in_range 0x80 0xBF c1 then 2 else 0
         | _ \<Rightarrow> 0)
      else if in_range 0xE0 0xEF c then
        (case cs of
           c1 # c2 # _ \<Rightarrow>
             if in_range (if in_range 0xE0 0xE0 c then 0xA0 else 0x80)
                  (if in_range 0xED 0xED c then 0x9F else 0xBF) c1
                \<and> in_range 0x80 0xBF c2
             then 3 else 0
         | _ \<Rightarrow> 0)
      else if in_range 0xF0 0xF4 c then
        (case cs of
           c1 # c2 # c3 # _ \<Rightarrow>
             if in_range (if in_range 0xF0 0xF0 c then 0x90 else 0x80)
                  (if in_range 0xF4 0xF4 c then 0x8F else 0xBF) c1
                \<and> in_range 0x80 0xBF c2 \<and> in_range 0x80 0xBF c3
             then 4 else 0
         | _ \<Rightarrow> 0)
      else 0)"

text \<open>The UTF-8 encoding of U+FFFD, the replacement character.\<close>

definition RuneError :: string where
  "RuneError = [CHR 0xEF, CHR 0xBF, CHR 0xBD]"

text \<open>
  The string the encoder writes for a Go string: valid runes are kept, and each byte that
  begins no valid rune is replaced by U+FFFD.
\<close>

fun toValidUTF8 :: "string \<Rightarrow> string" where
  "toValidUTF8 [] = []"
| "toValidUTF8 (c # cs) =
     (case rune_length (c # cs) of
        0 \<Rightarrow> RuneError @ toValidUTF8 cs
      | Suc n \<Rightarrow> c # take n cs @ toValidUTF8 (drop n cs))"

definition valid_utf8 :: "string \<Rightarrow> bool" where
  "valid_utf8 s \<longleftrightarrow> toValidUTF8 s = s"

definition string_toJSON :: "string \<Rightarrow> json" where
  "string_toJSON s = JStr (toValidUTF8 s)"

definition omitempty_string :: "string \<Rightarrow> json option" where
  "omitempty_string s = (if s = [] then None else Some (string_toJSON s))"

definition omitempty_uint :: "uint \<Rightarrow> json option" where
  "omitempty_uint n = (if n = 0 then None else Some (JNum (uint n)))"

definition omitempty_pointer :: "('a \<Rightarrow> json) \<Rightarrow> 'a option \<Rightarrow> json option" where
  "omitempty_pointer toJSON p = (case p of None \<Rightarrow> None | Some x \<Rightarrow> Some (toJSON x))"

definition omitempty_slice :: "('a \<Rightarrow> json) \<Rightarrow> 'a list \<Rightarrow> json option" where
  "omitempty_slice toJSON xs = (if xs = [] then None else Some (JArr (map toJSON xs)))"

definition uint_toJSON :: "uint \<Rightarrow> json" where
  "uint_toJSON n = JNum (uint n)"

fun string_fromJSON :: "json \<Rightarrow> error + string" where
  "string_fromJSON JNull = Inr []"
| "string_fromJSON (JStr s) = Inr s"
| "string_fromJSON _ = Inl UnmarshalTypeError"

fun uint_fromJSON :: "json \<Rightarrow> error + uint" where
  "uint_fromJSON JNull = Inr 0"
| "uint_fromJSON (JNum n) =
     (if 0 \<le> n \<and> n < 2 ^ 64 then Inr (word_of_int n) else Inl UnmarshalTypeError)"
| "uint_fromJSON _ = Inl UnmarshalTypeError"

fun pointer_fromJSON :: "(json \<Rightarrow> error + 'a) \<Rightarrow> json \<Rightarrow> error + 'a option" where
  "pointer_fromJSON fromJSON JNull = Inr None"
| "pointer_fromJSON fromJSON j = and_then (fromJSON j) (\<lambda>x. Inr (Some x))"

fun elements_fromJSON :: "(json \<Rightarrow> error + 'a) \<Rightarrow> json list \<Rightarrow> error + 'a list" where
  "elements_fromJSON fromJSON [] = Inr []"
| "elements_fromJSON fromJSON (j # js) =
     and_then (fromJSON j) (\<lambda>x.
     and_then (elements_fromJSON fromJSON js) (\<lambda>xs. Inr (x # xs)))"

fun slice_fromJSON :: "(json \<Rightarrow> error + 'a) \<Rightarrow> json \<Rightarrow> error + 'a list" where
  "slice_fromJSON fromJSON JNull = Inr []"
| "slice_fromJSON fromJSON (JArr js) = elements_fromJSON fromJSON js"
| "slice_fromJSON fromJSON _ = Inl UnmarshalTypeError"

fun struct_fromJSON ::
  "'a \<Rightarrow> ((string \<times> json) list \<Rightarrow> error + 'a) \<Rightarrow> json \<Rightarrow> error + 'a" where
  "struct_fromJSON zero read JNull = Inr zero"
| "struct_fromJSON zero read (JObj ms) = read ms"
| "struct_fromJSON zero read _ = Inl UnmarshalTypeError"

fun value_fromJSON :: "'a \<Rightarrow> (json \<Rightarrow> error + 'a) \<Rightarrow> json \<Rightarrow> error + 'a" where
  "value_fromJSON zero fromJSON JNull = Inr zero"
| "value_fromJSON zero fromJSON j = fromJSON j"

text \<open>
  The declarations made in another file of the package, as far as the JSON forms need
  them: the zero value of \<^verbatim>\<open>APIObject\<close>, the members it writes and how it is read from
  the members of an object; the zero value of \<^verbatim>\<open>EscalationPolicy\<close>, what a field of that
  type tagged \<^verbatim>\<open>omitempty\<close> writes (if anything) and how it is read; and the same for
  \<^verbatim>\<open>Team\<close> as an element of a slice.
\<close>

record ('x, 'ep, 'team) Declared =
  APIObject_zero :: "'x APIObject_scheme"
  APIObject_members :: "'x APIObject_scheme \<Rightarrow> (string \<times> json) list"
  APIObject_read :: "(string \<times> json) list \<Rightarrow> error + 'x APIObject_scheme"
  EscalationPolicy_zero :: 'ep
  EscalationPolicy_omitempty :: "'ep \<Rightarrow> json option"
  EscalationPolicy_fromJSON :: "json \<Rightarrow> error + 'ep"
  Team_zero :: 'team
  Team_toJSON :: "'team \<Rightarrow> json"
  Team_fromJSON :: "json \<Rightarrow> error + 'team"

definition APIObject_toJSON :: "('x, 'ep, 'team) Declared \<Rightarrow> 'x APIObject_scheme \<Rightarrow> json" where
  "APIObject_toJSON D a = JObj (APIObject_members D a)"

definition APIObject_fromJSON ::
  "('x, 'ep, 'team) Declared \<Rightarrow> json \<Rightarrow> error + 'x APIObject_scheme" where
  "APIObject_fromJSON D = struct_fromJSON (APIObject_zero D) (APIObject_read D)"

subsection \<open>Integration\<close>

definition Integration_keys :: "string list" where
  "Integration_keys =
     [''name'', ''service'', ''created_at'', ''vendor'', ''type'', ''integration_key'',
      ''integration_email'']"

definition Integration_fields ::
  "('x, 'ep, 'team) Declared \<Rightarrow> 'x Integration \<Rightarrow> (string \<times> json option) list" where
  "Integration_fields D i =
     [(''name'', omitempty_string (Integration.Name i)),
      (''service'', omitempty_pointer (APIObject_toJSON D) (Integration.Service i)),
      (''created_at'', omitempty_string (CreatedAt i)),
      (''vendor'', omitempty_pointer (APIObject_toJSON D) (Vendor i)),
      (''type'', omitempty_string (Integration.Type i)),
      (''integration_key'', omitempty_string (IntegrationKey i)),
      (''integration_email'', omitempty_string (IntegrationEmail i))]"

definition Integration_toJSON :: "('x, 'ep, 'team) Declared \<Rightarrow> 'x Integration \<Rightarrow> json" where
  "Integration_toJSON D i =
     JObj (promoted Integration_keys (APIObject_members D (Integration.APIObject i))
           @ present (Integration_fields D i))"

definition Integration_zero :: "('x, 'ep, 'team) Declared \<Rightarrow> 'x Integration" where
  "Integration_zero D =
     \<lparr>Integration.APIObject = APIObject_zero D, Name = [], Service = None, CreatedAt = [],
      Vendor = None, Type = [], IntegrationKey = [], IntegrationEmail = []\<rparr>"

definition Integration_read ::
  "('x, 'ep, 'team) Declared \<Rightarrow> (string \<times> json) list \<Rightarrow> error + 'x Integration" where
  "Integration_read D ms =
     and_then (APIObject_read D (promoted Integration_keys ms)) (\<lambda>apiObject.
     and_then (string_fromJSON (member ms ''name'')) (\<lambda>name.
     and_then (pointer_fromJSON (APIObject_fromJSON D) (member ms ''service'')) (\<lambda>service.
     and_then (string_fromJSON (member ms ''created_at'')) (\<lambda>createdAt.
     and_then (pointer_fromJSON (APIObject_fromJSON D) (member ms ''vendor'')) (\<lambda>vendor.
     and_then (string_fromJSON (member ms ''type'')) (\<lambda>type.
     and_then (string_fromJSON (member ms ''integration_key'')) (\<lambda>integrationKey.
     and_then (string_fromJSON (member ms ''integration_email'')) (\<lambda>integrationEmail.
     Inr \<lparr>Integration.APIObject = apiObject, Name = name, Service = service,
          CreatedAt = createdAt, Vendor = vendor, Type = type,
          IntegrationKey = integrationKey, IntegrationEmail = integrationEmail\<rparr>))))))))"

definition Integration_fromJSON ::
  "('x, 'ep, 'team) Declared \<Rightarrow> json \<Rightarrow> error + 'x Integration" where
  "Integration_fromJSON D = struct_fromJSON (Integration_zero D) (Integration_read D)"

subsection \<open>InlineModel and ScheduledAction\<close>

definition InlineModel_toJSON :: "InlineModel \<Rightarrow> json" where
  "InlineModel_toJSON m =
     JObj (present
       [(''type'', omitempty_string (InlineModel.Type m)),
        (''name'', omitempty_string (InlineModel.Name m))])"

definition InlineModel_zero :: InlineModel where
  "InlineModel_zero = \<lparr>InlineModel.Type = [], Name = []\<rparr>"

definition InlineModel_read :: "(string \<times> json) list \<Rightarrow> error + InlineModel" where
  "InlineModel_read ms =
     and_then (string_fromJSON (member ms ''type'')) (\<lambda>type.
     and_then (string_fromJSON (member ms ''name'')) (\<lambda>name.
     Inr \<lparr>InlineModel.Type = type, Name = name\<rparr>))"

definition InlineModel_fromJSON :: "json \<Rightarrow> error + InlineModel" where
  "InlineModel_fromJSON = struct_fromJSON InlineModel_zero InlineModel_read"

definition ScheduledAction_toJSON :: "ScheduledAction \<Rightarrow> json" where
  "ScheduledAction_toJSON a =
     JObj (present
       [(''type'', omitempty_string (ScheduledAction.Type a)),
        (''at'', Some (InlineModel_toJSON (At a))),
        (''to_urgency'', Some (string_toJSON (ToUrgency a)))])"

definition ScheduledAction_zero :: ScheduledAction where
  "ScheduledAction_zero = \<lparr>ScheduledAction.Type = [], At = InlineModel_zero, ToUrgency = []\<rparr>"

definition ScheduledAction_read :: "(string \<times> json) list \<Rightarrow> error + ScheduledAction" where
  "ScheduledAction_read ms =
     and_then (string_fromJSON (member ms ''type'')) (\<lambda>type.
     and_then (InlineModel_fromJSON (member ms ''at'')) (\<lambda>at.
     and_then (string_fromJSON (member ms ''to_urgency'')) (\<lambda>toUrgency.
     Inr \<lparr>ScheduledAction.Type = type, At = at, ToUrgency = toUrgency\<rparr>)))"

definition ScheduledAction_fromJSON :: "json \<Rightarrow> error + ScheduledAction" where
  "ScheduledAction_fromJSON = struct_fromJSON ScheduledAction_zero ScheduledAction_read"

subsection \<open>IncidentUrgencyType, SupportHours and IncidentUrgencyRule\<close>

definition IncidentUrgencyType_toJSON :: "IncidentUrgencyType \<Rightarrow> json" where
  "IncidentUrgencyType_toJSON t =
     JObj (present
       [(''type'', omitempty_string (IncidentUrgencyType.Type t)),
        (''urgency'', omitempty_string (IncidentUrgencyType.Urgency t))])"

definition IncidentUrgencyType_zero :: IncidentUrgencyType where
  "IncidentUrgencyType_zero = \<lparr>IncidentUrgencyType.Type = [], Urgency = []\<rparr>"

definition IncidentUrgencyType_read :: "(string \<times> json) list \<Rightarrow> error + IncidentUrgencyType" where
  "IncidentUrgencyType_read ms =
     and_then (string_fromJSON (member ms ''type'')) (\<lambda>type.
     and_then (string_fromJSON (member ms ''urgency'')) (\<lambda>urgency.
     Inr \<lparr>IncidentUrgencyType.Type = type, Urgency = urgency\<rparr>))"

definition IncidentUrgencyType_fromJSON :: "json \<Rightarrow> error + IncidentUrgencyType" where
  "IncidentUrgencyType_fromJSON =
     struct_fromJSON IncidentUrgencyType_zero IncidentUrgencyType_read"

definition SupportHours_toJSON :: "SupportHours \<Rightarrow> json" where
  "SupportHours_toJSON h =
     JObj (present
       [(''type'', omitempty_string (SupportHours.Type h)),
        (''time_zone'', omitempty_string (Timezone h)),
        (''start_time'', omitempty_string (StartTime h)),
        (''end_time'', omitempty_string (EndTime h)),
        (''days_of_week'', omitempty_slice uint_toJSON (DaysOfWeek h))])"

definition SupportHours_zero :: SupportHours where
  "SupportHours_zero =
     \<lparr>SupportHours.Type = [], Timezone = [], StartTime = [], EndTime = [], DaysOfWeek = []\<rparr>"

definition SupportHours_read :: "(string \<times> json) list \<Rightarrow> error + SupportHours" where
  "SupportHours_read ms =
     and_then (string_fromJSON (member ms ''type'')) (\<lambda>type.
     and_then (string_fromJSON (member ms ''time_zone'')) (\<lambda>timezone.
     and_then (string_fromJSON (member ms ''start_time'')) (\<lambda>startTime.
     and_then (string_fromJSON (member ms ''end_time'')) (\<lambda>endTime.
     and_then (slice_fromJSON uint_fromJSON (member ms ''days_of_week'')) (\<lambda>daysOfWeek.
     Inr \<lparr>SupportHours.Type = type, Timezone = timezone, StartTime = startTime,
          EndTime = endTime, DaysOfWeek = daysOfWeek\<rparr>)))))"

definition SupportHours_fromJSON :: "json \<Rightarrow> error + SupportHours" where
  "SupportHours_fromJSON = struct_fromJSON SupportHours_zero SupportHours_read"

definition IncidentUrgencyRule_toJSON :: "IncidentUrgencyRule \<Rightarrow> json" where
  "IncidentUrgencyRule_toJSON r =
     JObj (present
       [(''type'', omitempty_string (IncidentUrgencyRule.Type r)),
        (''urgency'', omitempty_string (IncidentUrgencyRule.Urgency r)),
        (''during_support_hours'',
           omitempty_pointer IncidentUrgencyType_toJSON (DuringSupportHours r)),
        (''outside_support_hours'',
           omitempty_pointer IncidentUrgencyType_toJSON (OutsideSupportHours r))])"

definition IncidentUrgencyRule_zero :: IncidentUrgencyRule where
  "IncidentUrgencyRule_zero =
     \<lparr>IncidentUrgencyRule.Type = [], Urgency = [], DuringSupportHours = None,
      OutsideSupportHours = None\<rparr>"

definition IncidentUrgencyRule_read :: "(string \<times> json) list \<Rightarrow> error + IncidentUrgencyRule" where
  "IncidentUrgencyRule_read ms =
     and_then (string_fromJSON (member ms ''type'')) (\<lambda>type.
     and_then (string_fromJSON (member ms ''urgency'')) (\<lambda>urgency.
     and_then (pointer_fromJSON IncidentUrgencyType_fromJSON
                 (member ms ''during_support_hours'')) (\<lambda>during.
     and_then (pointer_fromJSON IncidentUrgencyType_fromJSON
                 (member ms ''outside_support_hours'')) (\<lambda>outside.
     Inr \<lparr>IncidentUrgencyRule.Type = type, Urgency = urgency, DuringSupportHours = during,
          OutsideSupportHours = outside\<rparr>))))"

definition IncidentUrgencyRule_fromJSON :: "json \<Rightarrow> error + IncidentUrgencyRule" where
  "IncidentUrgencyRule_fromJSON =
     struct_fromJSON IncidentUrgencyRule_zero IncidentUrgencyRule_read"

subsection \<open>AlertGroupingParameters\<close>

definition AlertGroupParamsConfig_toJSON :: "AlertGroupParamsConfig \<Rightarrow> json" where
  "AlertGroupParamsConfig_toJSON c =
     JObj (present
       [(''timeout'', omitempty_uint (Timeout c)),
        (''aggregate'', omitempty_string (Aggregate c)),
        (''fields'', omitempty_slice string_toJSON (Fields c))])"

definition AlertGroupParamsConfig_zero :: AlertGroupParamsConfig where
  "AlertGroupParamsConfig_zero = \<lparr>Timeout = 0, Aggregate = [], Fields = []\<rparr>"

definition AlertGroupParamsConfig_read ::
  "(string \<times> json) list \<Rightarrow> error + AlertGroupParamsConfig" where
  "AlertGroupParamsConfig_read ms =
     and_then (uint_fromJSON (member ms ''timeout'')) (\<lambda>timeout.
     and_then (string_fromJSON (member ms ''aggregate'')) (\<lambda>aggregate.
     and_then (slice_fromJSON string_fromJSON (member ms ''fields'')) (\<lambda>fields.
     Inr \<lparr>Timeout = timeout, Aggregate = aggregate, Fields = fields\<rparr>)))"

definition AlertGroupParamsConfig_fromJSON :: "json \<Rightarrow> error + AlertGroupParamsConfig" where
  "AlertGroupParamsConfig_fromJSON =
     struct_fromJSON AlertGroupParamsConfig_zero AlertGroupParamsConfig_read"

definition AlertGroupingParameters_toJSON :: "AlertGroupingParameters \<Rightarrow> json" where
  "AlertGroupingParameters_toJSON p =
     JObj (present
       [(''type'', Some (string_toJSON (AlertGroupingParameters.Type p))),
        (''config'', Some (AlertGroupParamsConfig_toJSON (Config p)))])"

definition AlertGroupingParameters_zero :: AlertGroupingParameters where
  "AlertGroupingParameters_zero =
     \<lparr>AlertGroupingParameters.Type = [], Config = AlertGroupParamsConfig_zero\<rparr>"

definition AlertGroupingParameters_read ::
  "(string \<times> json) list \<Rightarrow> error + AlertGroupingParameters" where
  "AlertGroupingParameters_read ms =
     and_then (string_fromJSON (member ms ''type'')) (\<lambda>type.
     and_then (AlertGroupParamsConfig_fromJSON (member ms ''config'')) (\<lambda>config.
     Inr \<lparr>AlertGroupingParameters.Type = type, Config = config\<rparr>))"

definition AlertGroupingParameters_fromJSON :: "json \<Rightarrow> error + AlertGroupingParameters" where
  "AlertGroupingParameters_fromJSON =
     struct_fromJSON AlertGroupingParameters_zero AlertGroupingParameters_read"

subsection \<open>Service\<close>

definition Service_keys :: "string list" where
  "Service_keys =
     [''name'', ''description'', ''auto_resolve_timeout'', ''acknowledgement_timeout'',
      ''created_at'', ''status'', ''last_incident_timestamp'', ''integrations'',
      ''escalation_policy'', ''teams'', ''incident_urgency_rule'', ''support_hours'',
      ''scheduled_actions'', ''alert_creation'', ''alert_grouping'',
      ''alert_grouping_timeout'', ''alert_grouping_parameters'']"

definition Service_fields ::
  "('x, 'ep, 'team) Declared \<Rightarrow> ('x, 'ep, 'team) Service \<Rightarrow> (string \<times> json option) list" where
  "Service_fields D s =
     [(''name'', omitempty_string (Service.Name s)),
      (''description'', omitempty_string (Description s)),
      (''auto_resolve_timeout'', omitempty_pointer uint_toJSON (AutoResolveTimeout s)),
      (''acknowledgement_timeout'', omitempty_pointer uint_toJSON (AcknowledgementTimeout s)),
      (''created_at'', omitempty_string (CreateAt s)),
      (''status'', omitempty_string (Status s)),
      (''last_incident_timestamp'', omitempty_string (LastIncidentTimestamp s)),
      (''integrations'', omitempty_slice (Integration_toJSON D) (Integrations s)),
      (''escalation_policy'', EscalationPolicy_omitempty D (EscalationPolicy s)),
      (''teams'', omitempty_slice (Team_toJSON D) (Teams s)),
      (''incident_urgency_rule'',
         omitempty_pointer IncidentUrgencyRule_toJSON (IncidentUrgencyRule s)),
      (''support_hours'', omitempty_pointer SupportHours_toJSON (SupportHours s)),
      (''scheduled_actions'', omitempty_slice ScheduledAction_toJSON (ScheduledActions s)),
      (''alert_creation'', omitempty_string (AlertCreation s)),
      (''alert_grouping'', omitempty_string (AlertGrouping s)),
      (''alert_grouping_timeout'', omitempty_pointer uint_toJSON (AlertGroupingTimeout s)),
      (''alert_grouping_parameters'',
         omitempty_pointer AlertGroupingParameters_toJSON (AlertGroupingParameters s))]"

definition Service_toJSON ::
  "('x, 'ep, 'team) Declared \<Rightarrow> ('x, 'ep, 'team) Service \<Rightarrow> json" where
  "Service_toJSON D s =
     JObj (promoted Service_keys (APIObject_members D (Service.APIObject s))
           @ present (Service_fields D s))"

definition Service_zero :: "('x, 'ep, 'team) Declared \<Rightarrow> ('x, 'ep, 'team) Service" where
  "Service_zero D =
     \<lparr>Service.APIObject = APIObject_zero D, Name = [], Description = [],
      AutoResolveTimeout = None, AcknowledgementTimeout = None, CreateAt = [], Status = [],
      LastIncidentTimestamp = [], Integrations = [],
      EscalationPolicy = EscalationPolicy_zero D, Teams = [], IncidentUrgencyRule = None,
      SupportHours = None, ScheduledActions = [], AlertCreation = [], AlertGrouping = [],
      AlertGroupingTimeout = None, AlertGroupingParameters = None\<rparr>"

definition Service_read ::
  "('x, 'ep, 'team) Declared \<Rightarrow> (string \<times> json) list \<Rightarrow> error + ('x, 'ep, 'team) Service" where
  "Service_read D ms =
     and_then (APIObject_read D (promoted Service_keys ms)) (\<lambda>apiObject.
     and_then (string_fromJSON (member ms ''name'')) (\<lambda>name.
     and_then (string_fromJSON (member ms ''description'')) (\<lambda>description.
     and_then (pointer_fromJSON uint_fromJSON (member ms ''auto_resolve_timeout'')) (\<lambda>autoResolveTimeout.
     and_then (pointer_fromJSON uint_fromJSON (member ms ''acknowledgement_timeout'')) (\<lambda>acknowledgementTimeout.
     and_then (string_fromJSON (member ms ''created_at'')) (\<lambda>createAt.
     and_then (string_fromJSON (member ms ''status'')) (\<lambda>status.
     and_then (string_fromJSON (member ms ''last_incident_timestamp'')) (\<lambda>lastIncidentTimestamp.
     and_then (slice_fromJSON (Integration_fromJSON D) (member ms ''integrations'')) (\<lambda>integrations.
     and_then (value_fromJSON (EscalationPolicy_zero D) (EscalationPolicy_fromJSON D)
                 (member ms ''escalation_policy'')) (\<lambda>escalationPolicy.
     and_then (slice_fromJSON (value_fromJSON (Team_zero D) (Team_fromJSON D))
                 (member ms ''teams'')) (\<lambda>teams.
     and_then (pointer_fromJSON IncidentUrgencyRule_fromJSON
                 (member ms ''incident_urgency_rule'')) (\<lambda>incidentUrgencyRule.
     and_then (pointer_fromJSON SupportHours_fromJSON (member ms ''support_hours'')) (\<lambda>supportHours.
     and_then (slice_fromJSON ScheduledAction_fromJSON (member ms ''scheduled_actions'')) (\<lambda>scheduledActions.
     and_then (string_fromJSON (member ms ''alert_creation'')) (\<lambda>alertCreation.
     and_then (string_fromJSON (member ms ''alert_grouping'')) (\<lambda>alertGrouping.
     and_then (pointer_fromJSON uint_fromJSON (member ms ''alert_grouping_timeout'')) (\<lambda>alertGroupingTimeout.
     and_then (pointer_fromJSON AlertGroupingParameters_fromJSON
                 (member ms ''alert_grouping_parameters'')) (\<lambda>alertGroupingParameters.
     Inr \<lparr>Service.APIObject = apiObject, Name = name, Description = description,
          AutoResolveTimeout = autoResolveTimeout,
          AcknowledgementTimeout = acknowledgementTimeout, CreateAt = createAt,
          Status = status, LastIncidentTimestamp = lastIncidentTimestamp,
          Integrations = integrations, EscalationPolicy = escalationPolicy, Teams = teams,
          IncidentUrgencyRule = incidentUrgencyRule, SupportHours = supportHours,
          ScheduledActions = scheduledActions, AlertCreation = alertCreation,
          AlertGrouping = alertGrouping, AlertGroupingTimeout = alertGroupingTimeout,
          AlertGroupingParameters = alertGroupingParameters\<rparr>))))))))))))))))))"

definition Service_fromJSON ::
  "('x, 'ep, 'team) Declared \<Rightarrow> json \<Rightarrow> error + ('x, 'ep, 'team) Service" where
  "Service_fromJSON D = struct_fromJSON (Service_zero D) (Service_read D)"

subsection \<open>Decoding a response body\<close>

fun map_members ::
  "(json \<Rightarrow> error + 'a) \<Rightarrow> (string \<times> json) list \<Rightarrow> (string \<rightharpoonup> 'a) \<Rightarrow> error + (string \<rightharpoonup> 'a)" where
  "map_members fromJSON [] m = Inr m"
| "map_members fromJSON ((k, v) # ms) m =
     and_then (fromJSON v) (\<lambda>x. map_members fromJSON ms (m(k \<mapsto> x)))"

fun map_fromJSON :: "(json \<Rightarrow> error + 'a) \<Rightarrow> json \<Rightarrow> error + (string \<rightharpoonup> 'a)" where
  "map_fromJSON fromJSON JNull = Inr Map.empty"
| "map_fromJSON fromJSON (JObj ms) = map_members fromJSON ms Map.empty"
| "map_fromJSON fromJSON _ = Inl UnmarshalTypeError"

text \<open>
  Modelled from the spec: \<^verbatim>\<open>decodeJSON\<close> of \<^verbatim>\<open>Client\<close>, which is defined in another
  file of the package, at a target of type \<^verbatim>\<open>map[string]T\<close>. The spec has it decode the JSON body
  of the response into a mapping from field name to resource value and fail with a decode
  error when the body does not have that shape. A response is given by its body as a JSON
  value; a missing response is a decode error.
\<close>

definition Client_decodeJSON ::
  "(json \<Rightarrow> error + 'a) \<Rightarrow> json option \<Rightarrow> error + (string \<rightharpoonup> 'a)" where
  "Client_decodeJSON fromJSON resp =
     (case resp of
        None \<Rightarrow> Inl (Error ''EOF'')
      | Some body \<Rightarrow> map_fromJSON fromJSON body)"


subsection \<open>When a record is read back\<close>

text \<open>The value a field has in an object: its member, or \<^verbatim>\<open>null\<close> when it is left out.\<close>

definition or_null :: "json option \<Rightarrow> json" where
  "or_null v = (case v of None \<Rightarrow> JNull | Some j \<Rightarrow> j)"

text \<open>
  Every string of a record is valid UTF-8. One predicate for each struct whose
  declaration is given in full.
\<close>

definition InlineModel_valid :: "InlineModel \<Rightarrow> bool" where
  "InlineModel_valid m \<longleftrightarrow>
     valid_utf8 (InlineModel.Type m) \<and> valid_utf8 (InlineModel.Name m)"

definition ScheduledAction_valid :: "ScheduledAction \<Rightarrow> bool" where
  "ScheduledAction_valid a \<longleftrightarrow>
     valid_utf8 (ScheduledAction.Type a) \<and> InlineModel_valid (At a)
     \<and> valid_utf8 (ToUrgency a)"

definition IncidentUrgencyType_valid :: "IncidentUrgencyType \<Rightarrow> bool" where
  "IncidentUrgencyType_valid t \<longleftrightarrow>
     valid_utf8 (IncidentUrgencyType.Type t) \<and> valid_utf8 (IncidentUrgencyType.Urgency t)"

definition SupportHours_valid :: "SupportHours \<Rightarrow> bool" where
  "SupportHours_valid h \<longleftrightarrow>
     valid_utf8 (SupportHours.Type h) \<and> valid_utf8 (Timezone h) \<and> valid_utf8 (StartTime h)
     \<and> valid_utf8 (EndTime h)"

definition IncidentUrgencyRule_valid :: "IncidentUrgencyRule \<Rightarrow> bool" where
  "IncidentUrgencyRule_valid r \<longleftrightarrow>
     valid_utf8 (IncidentUrgencyRule.Type r) \<and> valid_utf8 (IncidentUrgencyRule.Urgency r)
     \<and> (case DuringSupportHours r of None \<Rightarrow> True | Some t \<Rightarrow> IncidentUrgencyType_valid t)
     \<and> (case OutsideSupportHours r of None \<Rightarrow> True | Some t \<Rightarrow> IncidentUrgencyType_valid t)"

definition AlertGroupParamsConfig_valid :: "AlertGroupParamsConfig \<Rightarrow> bool" where
  "AlertGroupParamsConfig_valid c \<longleftrightarrow>
     valid_utf8 (Aggregate c) \<and> list_all valid_utf8 (Fields c)"

definition AlertGroupingParameters_valid :: "AlertGroupingParameters \<Rightarrow> bool" where
  "AlertGroupingParameters_valid p \<longleftrightarrow>
     valid_utf8 (AlertGroupingParameters.Type p) \<and> AlertGroupParamsConfig_valid (Config p)"

text \<open>
  A value of a type declared elsewhere is read back from what it writes. For an
  \<^verbatim>\<open>APIObject\<close> embedded in a struct that declares the keys \<open>own\<close> itself, what it
  writes is what is left of its members once those keys are taken out (no keys for an
  \<^verbatim>\<open>APIObject\<close> that a field points to).
\<close>

definition APIObject_reads_back ::
  "('x, 'ep, 'team) Declared \<Rightarrow> string list \<Rightarrow> 'x APIObject_scheme \<Rightarrow> bool" where
  "APIObject_reads_back D own a \<longleftrightarrow>
     APIObject_read D (promoted own (APIObject_members D a)) = Inr a"

definition EscalationPolicy_reads_back :: "('x, 'ep, 'team) Declared \<Rightarrow> 'ep \<Rightarrow> bool" where
  "EscalationPolicy_reads_back D e \<longleftrightarrow>
     value_fromJSON (EscalationPolicy_zero D) (EscalationPolicy_fromJSON D)
       (or_null (EscalationPolicy_omitempty D e)) = Inr e"

definition Team_reads_back :: "('x, 'ep, 'team) Declared \<Rightarrow> 'team \<Rightarrow> bool" where
  "Team_reads_back D t \<longleftrightarrow>
     value_fromJSON (Team_zero D) (Team_fromJSON D) (Team_toJSON D t) = Inr t"

text \<open>
  The two conditions together, for an \<^verbatim>\<open>Integration\<close> and for a \<^verbatim>\<open>Service\<close>: every
  string is valid UTF-8 and every value of a type declared elsewhere is read back from what
  it writes.
\<close>

definition Integration_reads_back ::
  "('x, 'ep, 'team) Declared \<Rightarrow> 'x Integration \<Rightarrow> bool" where
  "Integration_reads_back D i \<longleftrightarrow>
     APIObject_reads_back D Integration_keys (Integration.APIObject i)
     \<and> valid_utf8 (Integration.Name i)
     \<and> (case Integration.Service i of None \<Rightarrow> True | Some a \<Rightarrow> APIObject_reads_back D [] a)
     \<and> valid_utf8 (CreatedAt i)
     \<and> (case Vendor i of None \<Rightarrow> True | Some a \<Rightarrow> APIObject_reads_back D [] a)
     \<and> valid_utf8 (Integration.Type i)
     \<and> valid_utf8 (IntegrationKey i)
     \<and> valid_utf8 (IntegrationEmail i)"

definition Service_reads_back ::
  "('x, 'ep, 'team) Declared \<Rightarrow> ('x, 'ep, 'team) Service \<Rightarrow> bool" where
  "Service_reads_back D s \<longleftrightarrow>
     APIObject_reads_back D Service_keys (Service.APIObject s)
     \<and> valid_utf8 (Service.Name s)
     \<and> valid_utf8 (Description s)
     \<and> valid_utf8 (CreateAt s)
     \<and> valid_utf8 (Status s)
     \<and> valid_utf8 (LastIncidentTimestamp s)
     \<and> list_all (Integration_reads_back D) (Integrations s)
     \<and> EscalationPolicy_reads_back D (EscalationPolicy s)
     \<and> list_all (Team_reads_back D) (Teams s)
     \<and> (case IncidentUrgencyRule s of None \<Rightarrow> True | Some r \<Rightarrow> IncidentUrgencyRule_valid r)
     \<and> (case SupportHours s of None \<Rightarrow> True | Some h \<Rightarrow> SupportHours_valid h)
     \<and> list_all ScheduledAction_valid (ScheduledActions s)
     \<and> valid_utf8 (AlertCreation s)
     \<and> valid_utf8 (AlertGrouping s)
     \<and> (case AlertGroupingParameters s of
           None \<Rightarrow> True
         | Some p \<Rightarrow> AlertGroupingParameters_valid p)"

subsection \<open>Example declarations\<close>

text \<open>
  An instance of the declarations made elsewhere, for concrete runs: an
  \<^verbatim>\<open>APIObject\<close> with the one field \<^verbatim>\<open>ID\<close> under the key \<^verbatim>\<open>id\<close>, and an escalation
  policy and a team that are each just a name.
\<close>

definition example_Declared :: "(unit, string, string) Declared" where
  "example_Declared =
     \<lparr>APIObject_zero = \<lparr>APIObject.ID = []\<rparr>,
      APIObject_members = (\<lambda>a. present [(''id'', omitempty_string (APIObject.ID a))]),
      APIObject_read = (\<lambda>ms.
        and_then (string_fromJSON (member ms ''id'')) (\<lambda>id'. Inr \<lparr>APIObject.ID = id'\<rparr>)),
      EscalationPolicy_zero = [],
      EscalationPolicy_omitempty = omitempty_string,
      EscalationPolicy_fromJSON = string_fromJSON,
      Team_zero = [],
      Team_toJSON = string_toJSON,
      Team_fromJSON = string_fromJSON\<rparr>"



section \<open>Properties of the unwrap helpers\<close>

text \<open>
  C1. A response that decodes to an object without the root key makes each of the three
  helpers return, without a panic, no resource and the error
  ``JSON response does not have <key> field'', which names the missing key.
\<close>

theorem missing_root_key_error:
  "(dS resp = Inr tS \<and> tS ''service'' = None \<longrightarrow>
      getServiceFromResponse dS resp None =
        Returns (None, Some (Error ''JSON response does not have service field'')))
   \<and> (dI resp = Inr tI \<and> tI ''integration'' = None \<longrightarrow>
      getIntegrationFromResponse dI resp None =
        Returns (None, Some (Error ''JSON response does not have integration field'')))
   \<and> (dR resp = Inr tR \<and> tR ''rule'' = None \<longrightarrow>
      getServiceRuleFromResponse dR resp None =
        Returns (None, None, Some (Error ''JSON response does not have rule field'')))"
  by (simp add: getServiceFromResponse_def getIntegrationFromResponse_def
      getServiceRuleFromResponse_def)

theorem missing_root_key_error_witness:
  "getServiceFromResponse (\<lambda>r. Inr (Map.empty :: string \<rightharpoonup> nat)) (Some (0::nat)) None =
      Returns (None, Some (Error ''JSON response does not have service field''))
   \<and> getIntegrationFromResponse (\<lambda>r. Inr [''service'' \<mapsto> (1::nat)]) (Some (0::nat)) None =
      Returns (None, Some (Error ''JSON response does not have integration field''))
   \<and> getServiceRuleFromResponse (\<lambda>r. Inr (Map.empty :: string \<rightharpoonup> nat)) (Some (0::nat)) None =
      Returns (None, None, Some (Error ''JSON response does not have rule field''))"
  using missing_root_key_error
    [of "\<lambda>r. Inr (Map.empty :: string \<rightharpoonup> nat)" "Some (0::nat)" Map.empty
        "\<lambda>r. Inr [''service'' \<mapsto> (1::nat)]" "[''service'' \<mapsto> (1::nat)]"
        "\<lambda>r. Inr (Map.empty :: string \<rightharpoonup> nat)" Map.empty]
  by simp

text \<open>
  C2. A body that does not decode makes \<^verbatim>\<open>getIntegrationFromResponse\<close> return the
  error ``Could not decode JSON response: <nil>'': the message carries the nil request
  error instead of the decode failure. The other two helpers carry the decode failure.
\<close>

theorem integration_decode_error_drops_cause:
  "getIntegrationFromResponse
      (\<lambda>r. (Inl (Error ''unexpected EOF'') :: error + (string \<rightharpoonup> nat))) (Some (0::nat)) None =
     Returns (None, Some (Error ''Could not decode JSON response: <nil>''))
   \<and> getServiceFromResponse
      (\<lambda>r. (Inl (Error ''unexpected EOF'') :: error + (string \<rightharpoonup> nat))) (Some (0::nat)) None =
     Returns (None, Some (Error ''Could not decode JSON response: unexpected EOF''))
   \<and> getServiceRuleFromResponse
      (\<lambda>r. (Inl (Error ''unexpected EOF'') :: error + (string \<rightharpoonup> nat))) (Some (0::nat)) None =
     Returns (None, None, Some (Error ''Could not decode JSON response: unexpected EOF''))"
  by (simp add: getServiceFromResponse_def getIntegrationFromResponse_def
      getServiceRuleFromResponse_def)

text \<open>
  C6. With a failed request and a nil response (the transport gave no response),
  \<^verbatim>\<open>getServiceFromResponse\<close> dereferences the nil response and panics instead of
  returning the error; so does \<^verbatim>\<open>GetService\<close> against a server that cannot be
  reached.
\<close>

theorem service_request_error_nil_response_panics:
  "getServiceFromResponse
      (decodeJSON :: nat option \<Rightarrow> error + (string \<rightharpoonup> nat)) None
      (Some (Error ''connection refused'')) = Panics
   \<and> GetService query_Values Encode (mock_server (Error ''connection refused''))
      (decodeJSON :: nat option \<Rightarrow> error + (string \<rightharpoonup> nat)) ''PXXXXXX'' None [] =
     (Panics, [])"
  by (simp add: getServiceFromResponse_def GetService_def mock_server_def serve_def
      case_prod_beta)

section \<open>Properties of the resource operations\<close>

lemma json_not_own_envelope: "x \<noteq> JObj [(k, x)]"
proof
  assume "x = JObj [(k, x)]"
  then have "size x = size (JObj [(k, x)])" by simp
  then show False by simp
qed

lemma create_update_envelopes:
  "snd (CreateService (recorder answer) dS toS s []) =
      [POST ''/services'' (JObj [(''service'', toS s)])]"
  "snd (UpdateService (recorder answer) dS toS s []) =
      [PUT (''/services/'' @ APIObject.ID (Service.APIObject s)) (JObj [(''service'', toS s)])]"
  "snd (CreateIntegration (recorder answer) dI toI id' i []) =
      [POST (''/services/'' @ id' @ ''/integrations'') (JObj [(''integration'', toI i)])]"
  "snd (UpdateServiceRule (recorder answer) dR toR serviceID ruleID rule []) =
      [PUT (''/services/'' @ serviceID @ ''/rules/'' @ ruleID)
         (JObj [(''rule'', pointer_toJSON toR rule)])]"
  by (simp_all add: CreateService_def UpdateService_def CreateIntegration_def
      UpdateServiceRule_def recorder_def Let_def case_prod_beta)

text \<open>
  C3. \<^verbatim>\<open>UpdateIntegration\<close> sends the JSON form of the integration itself as the
  request body, which is never the envelope with the member ``integration'' around it.
\<close>

theorem update_integration_sends_bare_record:
  "snd (UpdateIntegration (recorder answer) decodeJSON toJSON serviceID i []) =
      [PUT (''/services/'' @ serviceID @ ''/integrations/''
              @ APIObject.ID (Integration.APIObject i)) (toJSON i)]
   \<and> toJSON i \<noteq> JObj [(''integration'', toJSON i)]"
  by (simp add: UpdateIntegration_def recorder_def Let_def case_prod_beta
      json_not_own_envelope)

lemma service_rule_item_paths:
  "snd (GetServiceRule (recorder answer) decodeJSON serviceID ruleID []) =
      [GET (''/services/'' @ serviceID @ ''/rules/'' @ ruleID)]"
  "snd (DeleteServiceRule (recorder answer) serviceID ruleID []) =
      [DELETE (''/services/'' @ serviceID @ ''/rules/'' @ ruleID)]"
  by (simp_all add: GetServiceRule_def DeleteServiceRule_def recorder_def Let_def
      case_prod_beta)

text \<open>
  C8. \<^verbatim>\<open>CreateServiceRule\<close> for the service PXXXXXX posts to the path
  \<^verbatim>\<open>/services/PXXXXXX/rules/\<close>, with a slash at the end, which is not the collection
  path \<^verbatim>\<open>/services/PXXXXXX/rules\<close>.
\<close>

theorem create_service_rule_path_trailing_slash:
  "snd (CreateServiceRule (recorder answer) decodeJSON toJSON ''PXXXXXX'' rule []) =
      [POST ''/services/PXXXXXX/rules/'' (JObj [(''rule'', pointer_toJSON toJSON rule)])]
   \<and> ''/services/PXXXXXX/rules/'' \<noteq> ''/services/'' @ ''PXXXXXX'' @ ''/rules''"
  by (simp add: CreateServiceRule_def recorder_def Let_def case_prod_beta)

text \<open>
  C10. The error that \<^verbatim>\<open>query.Values\<close> returns has no influence on \<^verbatim>\<open>GetService\<close>:
  two encoders that give the same values for the options, whatever errors they report,
  lead to the same request, the same result and the same error.
\<close>

theorem get_service_ignores_query_error:
  "fst (query_Values1 opts) = fst (query_Values2 opts) \<Longrightarrow>
     GetService query_Values1 Encode c decodeJSON id' opts w =
     GetService query_Values2 Encode c decodeJSON id' opts w"
  by (simp add: GetService_def Let_def case_prod_beta)

theorem get_service_ignores_query_error_witness:
  "GetService (\<lambda>opts. ([(''include[]'', ''teams'')], Some (Error ''query: bad options'')))
      (\<lambda>v. concat (map (\<lambda>(k, x). k @ ''='' @ x) v))
      (mock_server (Error ''EOF'')) (\<lambda>r. Inr [''service'' \<mapsto> (7::nat)]) ''PXXXXXX'' None [0::nat]
   = GetService (\<lambda>opts. ([(''include[]'', ''teams'')], None))
      (\<lambda>v. concat (map (\<lambda>(k, x). k @ ''='' @ x) v))
      (mock_server (Error ''EOF'')) (\<lambda>r. Inr [''service'' \<mapsto> (7::nat)]) ''PXXXXXX'' None [0::nat]"
  using get_service_ignores_query_error
    [of "\<lambda>opts. ([(''include[]'', ''teams'')], Some (Error ''query: bad options''))" None
        "\<lambda>opts. ([(''include[]'', ''teams'')], None)"
        "\<lambda>v. concat (map (\<lambda>(k, x). k @ ''='' @ x) v)"
        "mock_server (Error ''EOF'')" "\<lambda>r. Inr [''service'' \<mapsto> (7::nat)]" "''PXXXXXX''"
        "[0::nat]"]
  by simp

lemma get_service_with_query_error_succeeds:
  "GetService (\<lambda>opts. ([(''include[]'', ''teams'')], Some (Error ''query: bad options'')))
      (\<lambda>v. concat (map (\<lambda>(k, x). k @ ''='' @ x) v))
      (mock_server (Error ''EOF'')) (\<lambda>r. Inr [''service'' \<mapsto> (7::nat)]) ''PXXXXXX'' None [0::nat]
   = (Returns (Some 7, None), [])"
  by (simp add: GetService_def mock_server_def serve_def getServiceFromResponse_def)

section \<open>Properties of the paginated lists\<close>

lemma fetch_pages_length:
  "fetch_pages c wo b d info n off w = Some (ps, off', w') \<Longrightarrow> length ps = n"
  by (induction n arbitrary: off w ps)
     (auto split: prod.splits option.splits sum.splits)

lemma pagedGet_from_prefix:
  assumes ok: "\<And>r acc p. d r = Inr p \<Longrightarrow> h r acc = ((info p, None), acc @ items p)"
  shows "fetch_pages c wo b d info n off w = Some (ps, off', w') \<Longrightarrow>
         \<forall>p\<in>set ps. More (info p) \<Longrightarrow>
         pagedGet_from c wo b h off acc w =
           pagedGet_from c wo b h off' (acc @ concat (map items ps)) w'"
proof (induction n arbitrary: off w ps acc)
  case 0
  then show ?case by simp
next
  case (Suc n)
  from Suc.prems(1) obtain r w1 p ps' where
    g: "get c (wo b off) w = ((r, None), w1)" and dr: "d r = Inr p"
    and rest: "fetch_pages c wo b d info n (Offset (info p) + Limit (info p)) w1 = Some (ps', off', w')"
    and ps: "ps = p # ps'"
    by (auto split: prod.splits option.splits sum.splits)
  from Suc.prems(2) ps have more: "More (info p)" and more': "\<forall>q\<in>set ps'. More (info q)"
    by simp_all
  have "pagedGet_from c wo b h off acc w =
          pagedGet_from c wo b h (Offset (info p) + Limit (info p)) (acc @ items p) w1"
    by (subst pagedGet_from.simps) (simp add: g ok [OF dr] more)
  also have "\<dots> = pagedGet_from c wo b h off' ((acc @ items p) @ concat (map items ps')) w'"
    by (rule Suc.IH [OF rest more'])
  finally show ?case by (simp add: ps)
qed

lemma pagedGet_from_fails:
  assumes bad: "\<And>r acc e. d r = Inl e \<Longrightarrow> h r acc = ((zero, Some e), acc)"
    and f: "page_fails c wo b d off w = Some (e, w1)"
  shows "pagedGet_from c wo b h off acc w = Some (Some e, acc, w1)"
  using f
  by (subst pagedGet_from.simps)
     (auto simp: page_fails_def bad split: prod.splits option.splits sum.splits)

lemma pagedGet_from_run:
  assumes ok: "\<And>r acc p. d r = Inr p \<Longrightarrow> h r acc = ((info p, None), acc @ items p)"
  shows "fetch_pages c wo b d info (Suc n) off w = Some (ps, off', w') \<Longrightarrow>
         \<forall>p\<in>set (butlast ps). More (info p) \<Longrightarrow> \<not> More (info (last ps)) \<Longrightarrow>
         pagedGet_from c wo b h off acc w = Some (None, acc @ concat (map items ps), w')"
proof (induction n arbitrary: off w ps acc)
  case 0
  from "0.prems"(1) obtain r p where
    g: "get c (wo b off) w = ((r, None), w')" and dr: "d r = Inr p" and ps: "ps = [p]"
    by (auto split: prod.splits option.splits sum.splits)
  from "0.prems"(3) ps have "\<not> More (info p)" by simp
  then show ?case
    by (subst pagedGet_from.simps) (simp add: g ok [OF dr] ps)
next
  case (Suc n)
  from Suc.prems(1) obtain r w1 p ps' where
    g: "get c (wo b off) w = ((r, None), w1)" and dr: "d r = Inr p"
    and rest: "fetch_pages c wo b d info (Suc n) (Offset (info p) + Limit (info p)) w1 =
                 Some (ps', off', w')"
    and ps: "ps = p # ps'"
    by (auto split: prod.splits option.splits sum.splits)
  from fetch_pages_length [OF rest] have ne: "ps' \<noteq> []" by auto
  from Suc.prems(2) ps ne have more: "More (info p)"
    and more': "\<forall>q\<in>set (butlast ps'). More (info q)"
    by simp_all
  from Suc.prems(3) ps ne have last: "\<not> More (info (last ps'))" by simp
  have "pagedGet_from c wo b h off acc w =
          pagedGet_from c wo b h (Offset (info p) + Limit (info p)) (acc @ items p) w1"
    by (subst pagedGet_from.simps) (simp add: g ok [OF dr] more)
  also have "\<dots> = Some (None, (acc @ items p) @ concat (map items ps'), w')"
    by (rule Suc.IH [OF rest more' last])
  finally show ?case by (simp add: ps)
qed

lemma services_handler_ok:
  "d r = Inr p \<Longrightarrow>
     services_responseHandler d r acc = ((services_pageInfo p, None), acc @ Services p)"
  by (simp add: services_responseHandler_def services_pageInfo_def)

lemma rules_handler_ok:
  "d r = Inr p \<Longrightarrow>
     rules_responseHandler d r acc = ((rules_pageInfo p, None), acc @ Rules p)"
  by (simp add: rules_responseHandler_def rules_pageInfo_def)

lemma services_handler_bad:
  "d r = Inl e \<Longrightarrow>
     services_responseHandler d r acc = ((\<lparr>More = False, Offset = 0, Limit = 0\<rparr>, Some e), acc)"
  by (simp add: services_responseHandler_def)

lemma rules_handler_bad:
  "d r = Inl e \<Longrightarrow>
     rules_responseHandler d r acc = ((\<lparr>More = False, Offset = 0, Limit = 0\<rparr>, Some e), acc)"
  by (simp add: rules_responseHandler_def)

lemma services_pageInfo_More [simp]:
  "APIListObject.More (services_pageInfo p) = APIListObject.More p"
  by (simp add: services_pageInfo_def)

lemma rules_pageInfo_More [simp]:
  "APIListObject.More (rules_pageInfo p) = ListServiceRulesResponse.More p"
  by (simp add: rules_pageInfo_def)

lemma ListServicesPaginated_run:
  assumes q: "snd (query_Values opts) = None"
    and f: "fetch_pages c with_offset (''/services?'' @ Encode (fst (query_Values opts))) decodeJSON
              services_pageInfo (Suc n) 0 w = Some (pages, offset, w')"
    and m: "\<forall>p\<in>set (butlast pages). APIListObject.More p"
    and l: "\<not> APIListObject.More (last pages)"
  shows "ListServicesPaginated query_Values Encode with_offset c decodeJSON opts w =
           Some ((concat (map Services pages), None), w')"
proof -
  have "pagedGet_from c with_offset (''/services?'' @ Encode (fst (query_Values opts)))
          (services_responseHandler decodeJSON) 0 [] w =
        Some (None, [] @ concat (map Services pages), w')"
    using m l by (intro pagedGet_from_run [OF services_handler_ok f]) simp_all
  with q show ?thesis
    by (simp add: ListServicesPaginated_def pagedGet_def case_prod_beta)
qed

lemma ListServiceRules_run:
  assumes f: "fetch_pages c with_offset (''/services/'' @ serviceID @ ''/rules'') decodeJSON
              rules_pageInfo (Suc n) 0 w = Some (pages, offset, w')"
    and m: "\<forall>p\<in>set (butlast pages). ListServiceRulesResponse.More p"
    and l: "\<not> ListServiceRulesResponse.More (last pages)"
  shows "ListServiceRules with_offset c decodeJSON serviceID w =
           Some ((Some \<lparr>ListServiceRulesResponse.Offset = 0, Limit = 0, More = False, Total = 0,
                        Rules = concat (map Rules pages)\<rparr>, None), w')"
proof -
  have "pagedGet_from c with_offset (''/services/'' @ serviceID @ ''/rules'')
          (rules_responseHandler decodeJSON) 0 [] w =
        Some (None, [] @ concat (map Rules pages), w')"
    using m l by (intro pagedGet_from_run [OF rules_handler_ok f]) simp_all
  then show ?thesis
    by (simp add: ListServiceRules_def pagedGet_def)
qed

lemma ListServicesPaginated_fails:
  assumes q: "snd (query_Values opts) = None"
    and f: "fetch_pages c with_offset (''/services?'' @ Encode (fst (query_Values opts))) decodeJSON
              services_pageInfo n 0 w = Some (pages, offset, w')"
    and m: "\<forall>p\<in>set pages. APIListObject.More p"
    and b: "page_fails c with_offset (''/services?'' @ Encode (fst (query_Values opts))) decodeJSON
              offset w' = Some (e, w'')"
  shows "ListServicesPaginated query_Values Encode with_offset c decodeJSON opts w =
           Some (([], Some e), w'')"
proof -
  let ?b = "''/services?'' @ Encode (fst (query_Values opts))"
  have "pagedGet_from c with_offset ?b (services_responseHandler decodeJSON) 0 [] w =
        pagedGet_from c with_offset ?b (services_responseHandler decodeJSON) offset
          ([] @ concat (map Services pages)) w'"
    using m by (intro pagedGet_from_prefix [OF services_handler_ok f]) simp_all
  also have "\<dots> = Some (Some e, [] @ concat (map Services pages), w'')"
    by (rule pagedGet_from_fails [OF services_handler_bad b])
  finally show ?thesis
    using q by (simp add: ListServicesPaginated_def pagedGet_def case_prod_beta)
qed

lemma ListServiceRules_fails:
  assumes f: "fetch_pages c with_offset (''/services/'' @ serviceID @ ''/rules'') decodeJSON
              rules_pageInfo n 0 w = Some (pages, offset, w')"
    and m: "\<forall>p\<in>set pages. ListServiceRulesResponse.More p"
    and b: "page_fails c with_offset (''/services/'' @ serviceID @ ''/rules'') decodeJSON
              offset w' = Some (e, w'')"
  shows "ListServiceRules with_offset c decodeJSON serviceID w = Some ((None, Some e), w'')"
proof -
  let ?b = "''/services/'' @ serviceID @ ''/rules''"
  have "pagedGet_from c with_offset ?b (rules_responseHandler decodeJSON) 0 [] w =
        pagedGet_from c with_offset ?b (rules_responseHandler decodeJSON) offset
          ([] @ concat (map Rules pages)) w'"
    using m by (intro pagedGet_from_prefix [OF rules_handler_ok f]) simp_all
  also have "\<dots> = Some (Some e, [] @ concat (map Rules pages), w'')"
    by (rule pagedGet_from_fails [OF rules_handler_bad b])
  finally show ?thesis
    by (simp add: ListServiceRules_def pagedGet_def)
qed

text \<open>
  C5. When the server delivers one or more pages, of which all but the last report more
  pages and the last reports none, \<^verbatim>\<open>ListServicesPaginated\<close> and \<^verbatim>\<open>ListServiceRules\<close>
  return, without an error, the items of the pages concatenated in the order of the
  requests: nothing is reordered, dropped or merged. The witness is the run of two pages
  with the items S1 and S2, which yields S1, S2.
\<close>

theorem paginated_lists_concatenate_pages:
  "(snd (query_Values opts) = None
      \<and> fetch_pages cS with_offset (''/services?'' @ Encode (fst (query_Values opts))) decodeS
           services_pageInfo (Suc n) 0 w = Some (pages, offset, w')
      \<and> (\<forall>p\<in>set (butlast pages). APIListObject.More p)
      \<and> \<not> APIListObject.More (last pages)
    \<longrightarrow> ListServicesPaginated query_Values Encode with_offset cS decodeS opts w =
          Some ((concat (map Services pages), None), w'))
   \<and> (fetch_pages cR with_offset (''/services/'' @ serviceID @ ''/rules'') decodeR
           rules_pageInfo (Suc m) 0 v = Some (rpages, roffset, v')
      \<and> (\<forall>p\<in>set (butlast rpages). ListServiceRulesResponse.More p)
      \<and> \<not> ListServiceRulesResponse.More (last rpages)
    \<longrightarrow> ListServiceRules with_offset cR decodeR serviceID v =
          Some ((Some \<lparr>ListServiceRulesResponse.Offset = 0, Limit = 0, More = False, Total = 0,
                       Rules = concat (map Rules rpages)\<rparr>, None), v'))"
  using ListServicesPaginated_run [of query_Values opts cS with_offset Encode decodeS n w pages offset w']
    ListServiceRules_run [of cR with_offset serviceID decodeR m v rpages roffset v']
  by blast

text \<open>
  C4. When the server delivers some pages that all report more pages and the request for
  the next page fails (the request returns an error, or its response does not decode),
  \<^verbatim>\<open>ListServicesPaginated\<close> returns that error with a nil slice and
  \<^verbatim>\<open>ListServiceRules\<close> returns it with a nil response: the items of the earlier pages
  are not returned.
\<close>

theorem paginated_lists_discard_on_error:
  "(snd (query_Values opts) = None
      \<and> fetch_pages cS with_offset (''/services?'' @ Encode (fst (query_Values opts))) decodeS
           services_pageInfo n 0 w = Some (pages, offset, w')
      \<and> (\<forall>p\<in>set pages. APIListObject.More p)
      \<and> page_fails cS with_offset (''/services?'' @ Encode (fst (query_Values opts))) decodeS
           offset w' = Some (e, w'')
    \<longrightarrow> ListServicesPaginated query_Values Encode with_offset cS decodeS opts w =
          Some (([], Some e), w''))
   \<and> (fetch_pages cR with_offset (''/services/'' @ serviceID @ ''/rules'') decodeR
           rules_pageInfo m 0 v = Some (rpages, roffset, v')
      \<and> (\<forall>p\<in>set rpages. ListServiceRulesResponse.More p)
      \<and> page_fails cR with_offset (''/services/'' @ serviceID @ ''/rules'') decodeR
           roffset v' = Some (e', v'')
    \<longrightarrow> ListServiceRules with_offset cR decodeR serviceID v = Some ((None, Some e'), v''))"
  using ListServicesPaginated_fails
      [of query_Values opts cS with_offset Encode decodeS n w pages offset w' e w'']
    ListServiceRules_fails [of cR with_offset serviceID decodeR m v rpages roffset v' e' v'']
  by blast


theorem paginated_lists_concatenate_pages_witness:
  "ListServicesPaginated (\<lambda>opts. ([], None)) (\<lambda>v. concat v) (\<lambda>path offset. path)
      (mock_server (Error ''EOF''))
      (\<lambda>r. case r of None \<Rightarrow> Inl (Error ''EOF'') | Some page \<Rightarrow> Inr page)
      \<lparr>More = False, Offset = 0, Limit = 0, TeamIDs = [], TimeZone = [], SortBy = [],
        Query = [], Includes = []\<rparr>
      [\<lparr>More = True, Offset = 0, Limit = 1, Services = [''S1'']\<rparr>,
       \<lparr>More = False, Offset = 1, Limit = 1, Services = [''S2'']\<rparr>]
     = Some (([''S1'', ''S2''], None), [])
   \<and> ListServiceRules (\<lambda>path offset. path) (mock_server (Error ''EOF''))
      (\<lambda>r. case r of None \<Rightarrow> Inl (Error ''EOF'') | Some page \<Rightarrow> Inr page) ''PXXXXXX''
      [\<lparr>ListServiceRulesResponse.Offset = 0, Limit = 1, More = True, Total = 2,
         Rules = [Some \<lparr>ServiceRule.ID = ''R1'', Self = [], Disabled = False, Conditions = None,
                         TimeFrame = None, Position = None, Actions = None\<rparr>]\<rparr>,
       \<lparr>ListServiceRulesResponse.Offset = 1, Limit = 1, More = False, Total = 2,
         Rules = [Some \<lparr>ServiceRule.ID = ''R2'', Self = [], Disabled = False, Conditions = None,
                         TimeFrame = None, Position = None, Actions = None\<rparr>]\<rparr>]
     = Some ((Some \<lparr>ListServiceRulesResponse.Offset = 0, Limit = 0, More = False, Total = 0,
                Rules = [Some \<lparr>ServiceRule.ID = ''R1'', Self = [], Disabled = False,
                                Conditions = None, TimeFrame = None, Position = None,
                                Actions = None\<rparr>,
                         Some \<lparr>ServiceRule.ID = ''R2'', Self = [], Disabled = False,
                                Conditions = None, TimeFrame = None, Position = None,
                                Actions = None\<rparr>]\<rparr>, None), [])"
  using paginated_lists_concatenate_pages
    [where query_Values = "\<lambda>opts. ([] :: string list, None)" and Encode = "\<lambda>v. concat v"
       and with_offset = "\<lambda>path offset. path"
       and cS = "mock_server (Error ''EOF'')"
       and decodeS = "\<lambda>r. case r of None \<Rightarrow> Inl (Error ''EOF'') | Some page \<Rightarrow> Inr page"
       and opts = "\<lparr>More = False, Offset = 0, Limit = 0, TeamIDs = [], TimeZone = [], SortBy = [],
                     Query = [], Includes = []\<rparr>"
       and n = 1
       and w = "[\<lparr>More = True, Offset = 0, Limit = 1, Services = [''S1'']\<rparr>,
                 \<lparr>More = False, Offset = 1, Limit = 1, Services = [''S2'']\<rparr>]"
       and pages = "[\<lparr>More = True, Offset = 0, Limit = 1, Services = [''S1'']\<rparr>,
                     \<lparr>More = False, Offset = 1, Limit = 1, Services = [''S2'']\<rparr>]"
       and offset = 2 and w' = "[]"
       and cR = "mock_server (Error ''EOF'')"
       and decodeR = "\<lambda>r. case r of None \<Rightarrow> Inl (Error ''EOF'') | Some page \<Rightarrow> Inr page"
       and serviceID = "''PXXXXXX''" and m = 1
       and v = "[\<lparr>ListServiceRulesResponse.Offset = 0, Limit = 1, More = True, Total = 2,
         Rules = [Some \<lparr>ServiceRule.ID = ''R1'', Self = [], Disabled = False, Conditions = None,
                         TimeFrame = None, Position = None, Actions = None\<rparr>]\<rparr>,
       \<lparr>ListServiceRulesResponse.Offset = 1, Limit = 1, More = False, Total = 2,
         Rules = [Some \<lparr>ServiceRule.ID = ''R2'', Self = [], Disabled = False, Conditions = None,
                         TimeFrame = None, Position = None, Actions = None\<rparr>]\<rparr>]"
       and rpages = "[\<lparr>ListServiceRulesResponse.Offset = 0, Limit = 1, More = True, Total = 2,
         Rules = [Some \<lparr>ServiceRule.ID = ''R1'', Self = [], Disabled = False, Conditions = None,
                         TimeFrame = None, Position = None, Actions = None\<rparr>]\<rparr>,
       \<lparr>ListServiceRulesResponse.Offset = 1, Limit = 1, More = False, Total = 2,
         Rules = [Some \<lparr>ServiceRule.ID = ''R2'', Self = [], Disabled = False, Conditions = None,
                         TimeFrame = None, Position = None, Actions = None\<rparr>]\<rparr>]"
       and roffset = 2 and v' = "[]"]
  by (simp add: mock_server_def serve_def services_pageInfo_def rules_pageInfo_def)

theorem paginated_lists_discard_on_error_witness:
  "ListServicesPaginated (\<lambda>opts. ([], None)) (\<lambda>v. concat v) (\<lambda>path offset. path)
      (mock_server (Error ''connection reset''))
      (\<lambda>r. case r of None \<Rightarrow> Inl (Error ''EOF'') | Some page \<Rightarrow> Inr page)
      \<lparr>More = False, Offset = 0, Limit = 0, TeamIDs = [], TimeZone = [], SortBy = [],
        Query = [], Includes = []\<rparr>
      [\<lparr>More = True, Offset = 0, Limit = 1, Services = [''S1'']\<rparr>]
     = Some (([], Some (Error ''connection reset'')), [])
   \<and> ListServiceRules (\<lambda>path offset. path) (mock_server (Error ''connection reset''))
      (\<lambda>r. case r of None \<Rightarrow> Inl (Error ''EOF'') | Some None \<Rightarrow> Inl (Error ''unexpected EOF'')
            | Some (Some page) \<Rightarrow> Inr page) ''PXXXXXX''
      [Some \<lparr>ListServiceRulesResponse.Offset = 0, Limit = 1, More = True, Total = 2,
         Rules = [Some \<lparr>ServiceRule.ID = ''R1'', Self = [], Disabled = False, Conditions = None,
                         TimeFrame = None, Position = None, Actions = None\<rparr>]\<rparr>,
       None]
     = Some ((None, Some (Error ''unexpected EOF'')), [])"
  using paginated_lists_discard_on_error
    [where query_Values = "\<lambda>opts. ([] :: string list, None)" and Encode = "\<lambda>v. concat v"
       and with_offset = "\<lambda>path offset. path"
       and cS = "mock_server (Error ''connection reset'')"
       and decodeS = "\<lambda>r. case r of None \<Rightarrow> Inl (Error ''EOF'') | Some page \<Rightarrow> Inr page"
       and opts = "\<lparr>More = False, Offset = 0, Limit = 0, TeamIDs = [], TimeZone = [], SortBy = [],
                     Query = [], Includes = []\<rparr>"
       and n = 1
       and w = "[\<lparr>More = True, Offset = 0, Limit = 1, Services = [''S1'']\<rparr>]"
       and pages = "[\<lparr>More = True, Offset = 0, Limit = 1, Services = [''S1'']\<rparr>]"
       and offset = 1 and w' = "[]" and e = "Error ''connection reset''" and w'' = "[]"
       and cR = "mock_server (Error ''connection reset'')"
       and decodeR = "\<lambda>r. case r of None \<Rightarrow> Inl (Error ''EOF'')
            | Some None \<Rightarrow> Inl (Error ''unexpected EOF'') | Some (Some page) \<Rightarrow> Inr page"
       and serviceID = "''PXXXXXX''" and m = 1
       and v = "[Some \<lparr>ListServiceRulesResponse.Offset = 0, Limit = 1, More = True, Total = 2,
         Rules = [Some \<lparr>ServiceRule.ID = ''R1'', Self = [], Disabled = False, Conditions = None,
                         TimeFrame = None, Position = None, Actions = None\<rparr>]\<rparr>,
       None]"
       and rpages = "[\<lparr>ListServiceRulesResponse.Offset = 0, Limit = 1, More = True, Total = 2,
         Rules = [Some \<lparr>ServiceRule.ID = ''R1'', Self = [], Disabled = False, Conditions = None,
                         TimeFrame = None, Position = None, Actions = None\<rparr>]\<rparr>]"
       and roffset = 1 and v' = "[None]" and e' = "Error ''unexpected EOF''" and v'' = "[]"]
  by (simp add: mock_server_def serve_def services_pageInfo_def rules_pageInfo_def page_fails_def)

section \<open>Properties of the JSON forms\<close>

lemma and_then_Inr [simp]: "and_then (Inr x) f = f x"
  by (simp add: and_then_def)

lemma and_then_eq_Inr: "and_then r f = Inr z \<longleftrightarrow> (\<exists>y. r = Inr y \<and> f y = Inr z)"
  by (cases r) (simp_all add: and_then_def)

lemma fold_present:
  "distinct (map fst fs) \<Longrightarrow>
     fold (\<lambda>(k', v) found. if k' = k then v else found) (present fs) r =
       (case map_of fs k of Some (Some v) \<Rightarrow> v | _ \<Rightarrow> r)"
proof (induction fs arbitrary: r rule: present.induct)
  case 1
  then show ?case by simp
next
  case (2 k' fs)
  then have "k = k' \<Longrightarrow> map_of fs k = None"
    by (simp add: map_of_eq_None_iff)
  with 2 show ?case by simp
next
  case (3 k' v fs)
  then have "k = k' \<Longrightarrow> map_of fs k = None"
    by (simp add: map_of_eq_None_iff)
  with 3 show ?case by simp
qed

lemma member_present:
  "distinct (map fst fs) \<Longrightarrow>
     member (present fs) k = or_null (case map_of fs k of None \<Rightarrow> None | Some v \<Rightarrow> v)"
  by (simp add: member_def fold_present or_null_def split: option.splits)

lemma fold_no_key:
  "k \<notin> fst ` set ms \<Longrightarrow> fold (\<lambda>(k', v) found. if k' = k then v else found) ms r = r"
  by (induction ms arbitrary: r) auto

lemma member_promoted_append:
  "k \<in> set own \<Longrightarrow> member (promoted own pre @ ms) k = member ms k"
proof -
  assume "k \<in> set own"
  then have "k \<notin> fst ` set (promoted own pre)"
    by (auto simp: promoted_def)
  then show ?thesis
    by (simp add: member_def fold_no_key)
qed

lemma keys_present: "fst ` set (present fs) \<subseteq> fst ` set fs"
  by (induction fs rule: present.induct) auto

lemma promoted_present:
  "fst ` set fs \<subseteq> set own \<Longrightarrow> promoted own (present fs) = []"
  using keys_present [of fs] by (force simp: promoted_def filter_empty_conv)

lemma promoted_embedded:
  assumes "fst ` set fs \<subseteq> set own"
  shows "promoted own (promoted own pre @ present fs) = promoted own pre"
proof -
  have "promoted own (promoted own pre @ present fs) =
          promoted own (promoted own pre) @ promoted own (present fs)"
    by (simp add: promoted_def)
  also have "promoted own (promoted own pre) = promoted own pre"
    by (simp add: promoted_def)
  finally show ?thesis
    using assms by (simp add: promoted_present)
qed

lemma promoted_no_keys [simp]: "promoted [] ms = ms"
  by (simp add: promoted_def)

lemma or_null_Some [simp]: "or_null (Some j) = j"
  by (simp add: or_null_def)

subsection \<open>Strings and numbers\<close>

lemma ascii_valid: "list_all (in_range 0x00 0x7F) s \<Longrightarrow> valid_utf8 s"
  unfolding valid_utf8_def by (induction s) simp_all

lemma invalid_byte_replaced:
  "string_fromJSON (string_toJSON [CHR 0xFF]) = Inr [CHR 0xEF, CHR 0xBF, CHR 0xBD]"
  by (simp add: string_toJSON_def in_range_def RuneError_def)

lemma string_elem_decoded [simp]: "string_fromJSON (string_toJSON s) = Inr (toValidUTF8 s)"
  by (simp add: string_toJSON_def)

lemma string_decoded [simp]:
  "string_fromJSON (or_null (omitempty_string s)) = Inr (toValidUTF8 s)"
  by (simp add: or_null_def omitempty_string_def)

lemma uint_roundtrip [simp]: "uint_fromJSON (uint_toJSON n) = Inr n"
proof -
  have "uint n < 2 ^ 64" using uint_bounded [of n] by simp
  then show ?thesis by (simp add: uint_toJSON_def)
qed

lemma omitempty_uint_roundtrip [simp]: "uint_fromJSON (or_null (omitempty_uint n)) = Inr n"
  using uint_roundtrip [of n] by (simp add: or_null_def omitempty_uint_def uint_toJSON_def)

subsection \<open>Pointers and slices\<close>

lemma pointer_roundtrip_iff:
  assumes "\<And>x. toJSON x \<noteq> JNull"
  shows "pointer_fromJSON fromJSON (or_null (omitempty_pointer toJSON p)) = Inr p \<longleftrightarrow>
           (case p of None \<Rightarrow> True | Some x \<Rightarrow> fromJSON (toJSON x) = Inr x)"
proof (cases p)
  case None
  then show ?thesis by (simp add: or_null_def omitempty_pointer_def)
next
  case (Some x)
  with assms [of x] show ?thesis
    by (cases "toJSON x") (auto simp: or_null_def omitempty_pointer_def and_then_eq_Inr)
qed

lemma elements_roundtrip_iff:
  "elements_fromJSON fromJSON (map toJSON xs) = Inr xs \<longleftrightarrow>
     list_all (\<lambda>x. fromJSON (toJSON x) = Inr x) xs"
  by (induction xs) (auto simp: and_then_eq_Inr)

lemma slice_roundtrip_iff:
  "slice_fromJSON fromJSON (or_null (omitempty_slice toJSON xs)) = Inr xs \<longleftrightarrow>
     list_all (\<lambda>x. fromJSON (toJSON x) = Inr x) xs"
  by (simp add: or_null_def omitempty_slice_def elements_roundtrip_iff)

lemma uint_pointer [simp]:
  "pointer_fromJSON uint_fromJSON (or_null (omitempty_pointer uint_toJSON p)) = Inr p"
proof -
  have "uint_toJSON x \<noteq> JNull" for x by (simp add: uint_toJSON_def)
  from pointer_roundtrip_iff [of uint_toJSON uint_fromJSON p, OF this]
  show ?thesis by (simp split: option.splits)
qed

lemma uint_slice [simp]:
  "slice_fromJSON uint_fromJSON (or_null (omitempty_slice uint_toJSON xs)) = Inr xs"
  by (simp add: slice_roundtrip_iff list_all_iff)

lemma string_slice_iff [simp]:
  "slice_fromJSON string_fromJSON (or_null (omitempty_slice string_toJSON xs)) = Inr xs \<longleftrightarrow>
     list_all valid_utf8 xs"
  by (simp add: slice_roundtrip_iff valid_utf8_def list_all_iff)

subsection \<open>Structs declared in full\<close>

lemma InlineModel_roundtrip_iff [simp]:
  "InlineModel_fromJSON (InlineModel_toJSON m) = Inr m \<longleftrightarrow> InlineModel_valid m"
  by (cases m)
     (auto simp: InlineModel_fromJSON_def InlineModel_toJSON_def InlineModel_read_def
        member_present InlineModel_valid_def valid_utf8_def)

lemma ScheduledAction_roundtrip_iff [simp]:
  "ScheduledAction_fromJSON (ScheduledAction_toJSON a) = Inr a \<longleftrightarrow> ScheduledAction_valid a"
  by (cases a)
     (auto simp: ScheduledAction_fromJSON_def ScheduledAction_toJSON_def
        ScheduledAction_read_def member_present ScheduledAction_valid_def valid_utf8_def
        and_then_eq_Inr)

lemma IncidentUrgencyType_roundtrip_iff [simp]:
  "IncidentUrgencyType_fromJSON (IncidentUrgencyType_toJSON t) = Inr t \<longleftrightarrow>
     IncidentUrgencyType_valid t"
  by (cases t)
     (auto simp: IncidentUrgencyType_fromJSON_def IncidentUrgencyType_toJSON_def
        IncidentUrgencyType_read_def member_present IncidentUrgencyType_valid_def
        valid_utf8_def)

lemma SupportHours_roundtrip_iff [simp]:
  "SupportHours_fromJSON (SupportHours_toJSON h) = Inr h \<longleftrightarrow> SupportHours_valid h"
  by (cases h)
     (auto simp: SupportHours_fromJSON_def SupportHours_toJSON_def SupportHours_read_def
        member_present SupportHours_valid_def valid_utf8_def)

lemma IncidentUrgencyType_pointer_iff [simp]:
  "pointer_fromJSON IncidentUrgencyType_fromJSON
     (or_null (omitempty_pointer IncidentUrgencyType_toJSON p)) = Inr p \<longleftrightarrow>
   (case p of None \<Rightarrow> True | Some t \<Rightarrow> IncidentUrgencyType_valid t)"
proof -
  have "IncidentUrgencyType_toJSON x \<noteq> JNull" for x
    by (simp add: IncidentUrgencyType_toJSON_def)
  from pointer_roundtrip_iff [of IncidentUrgencyType_toJSON IncidentUrgencyType_fromJSON p,
      OF this]
  show ?thesis by (simp split: option.splits)
qed

lemma IncidentUrgencyRule_roundtrip_iff [simp]:
  "IncidentUrgencyRule_fromJSON (IncidentUrgencyRule_toJSON r) = Inr r \<longleftrightarrow>
     IncidentUrgencyRule_valid r"
  by (cases r)
     (auto simp: IncidentUrgencyRule_fromJSON_def IncidentUrgencyRule_toJSON_def
        IncidentUrgencyRule_read_def member_present IncidentUrgencyRule_valid_def
        valid_utf8_def and_then_eq_Inr)

lemma AlertGroupParamsConfig_roundtrip_iff [simp]:
  "AlertGroupParamsConfig_fromJSON (AlertGroupParamsConfig_toJSON c) = Inr c \<longleftrightarrow>
     AlertGroupParamsConfig_valid c"
  by (cases c)
     (auto simp: AlertGroupParamsConfig_fromJSON_def AlertGroupParamsConfig_toJSON_def
        AlertGroupParamsConfig_read_def member_present AlertGroupParamsConfig_valid_def
        valid_utf8_def and_then_eq_Inr)

lemma AlertGroupingParameters_roundtrip_iff [simp]:
  "AlertGroupingParameters_fromJSON (AlertGroupingParameters_toJSON p) = Inr p \<longleftrightarrow>
     AlertGroupingParameters_valid p"
  by (cases p)
     (auto simp: AlertGroupingParameters_fromJSON_def AlertGroupingParameters_toJSON_def
        AlertGroupingParameters_read_def member_def AlertGroupingParameters_valid_def
        valid_utf8_def and_then_eq_Inr)

lemma IncidentUrgencyRule_pointer_iff [simp]:
  "pointer_fromJSON IncidentUrgencyRule_fromJSON
     (or_null (omitempty_pointer IncidentUrgencyRule_toJSON p)) = Inr p \<longleftrightarrow>
   (case p of None \<Rightarrow> True | Some r \<Rightarrow> IncidentUrgencyRule_valid r)"
proof -
  have "IncidentUrgencyRule_toJSON x \<noteq> JNull" for x
    by (simp add: IncidentUrgencyRule_toJSON_def)
  from pointer_roundtrip_iff [of IncidentUrgencyRule_toJSON IncidentUrgencyRule_fromJSON p,
      OF this]
  show ?thesis by (simp split: option.splits)
qed

lemma SupportHours_pointer_iff [simp]:
  "pointer_fromJSON SupportHours_fromJSON
     (or_null (omitempty_pointer SupportHours_toJSON p)) = Inr p \<longleftrightarrow>
   (case p of None \<Rightarrow> True | Some h \<Rightarrow> SupportHours_valid h)"
proof -
  have "SupportHours_toJSON x \<noteq> JNull" for x
    by (simp add: SupportHours_toJSON_def)
  from pointer_roundtrip_iff [of SupportHours_toJSON SupportHours_fromJSON p, OF this]
  show ?thesis by (simp split: option.splits)
qed

lemma AlertGroupingParameters_pointer_iff [simp]:
  "pointer_fromJSON AlertGroupingParameters_fromJSON
     (or_null (omitempty_pointer AlertGroupingParameters_toJSON p)) = Inr p \<longleftrightarrow>
   (case p of None \<Rightarrow> True | Some g \<Rightarrow> AlertGroupingParameters_valid g)"
proof -
  have "AlertGroupingParameters_toJSON x \<noteq> JNull" for x
    by (simp add: AlertGroupingParameters_toJSON_def)
  from pointer_roundtrip_iff
    [of AlertGroupingParameters_toJSON AlertGroupingParameters_fromJSON p, OF this]
  show ?thesis by (simp split: option.splits)
qed

lemma ScheduledAction_slice_iff [simp]:
  "slice_fromJSON ScheduledAction_fromJSON
     (or_null (omitempty_slice ScheduledAction_toJSON xs)) = Inr xs \<longleftrightarrow>
   list_all ScheduledAction_valid xs"
  by (simp add: slice_roundtrip_iff)

subsection \<open>Integration and Service\<close>

lemma APIObject_pointer_iff [simp]:
  "pointer_fromJSON (APIObject_fromJSON D)
     (or_null (omitempty_pointer (APIObject_toJSON D) p)) = Inr p \<longleftrightarrow>
   (case p of None \<Rightarrow> True | Some a \<Rightarrow> APIObject_reads_back D [] a)"
proof -
  have "APIObject_toJSON D x \<noteq> JNull" for x
    by (simp add: APIObject_toJSON_def)
  from pointer_roundtrip_iff [of "APIObject_toJSON D" "APIObject_fromJSON D" p, OF this]
  show ?thesis
    by (simp add: APIObject_fromJSON_def APIObject_toJSON_def APIObject_reads_back_def
        split: option.splits)
qed

lemma Integration_keys_member:
  "''name'' \<in> set Integration_keys" "''service'' \<in> set Integration_keys"
  "''created_at'' \<in> set Integration_keys" "''vendor'' \<in> set Integration_keys"
  "''type'' \<in> set Integration_keys" "''integration_key'' \<in> set Integration_keys"
  "''integration_email'' \<in> set Integration_keys"
  by (simp_all add: Integration_keys_def)

lemma Integration_eq_iff:
  "r = i \<longleftrightarrow>
     Integration.APIObject r = Integration.APIObject i
     \<and> Integration.Name r = Integration.Name i
     \<and> Integration.Service r = Integration.Service i
     \<and> CreatedAt r = CreatedAt i
     \<and> Vendor r = Vendor i
     \<and> Integration.Type r = Integration.Type i
     \<and> IntegrationKey r = IntegrationKey i
     \<and> IntegrationEmail r = IntegrationEmail i"
  for r i :: "'x Integration"
  by (cases r, cases i) auto

lemma Integration_roundtrip_iff [simp]:
  "Integration_fromJSON D (Integration_toJSON D i) = Inr i \<longleftrightarrow> Integration_reads_back D i"
proof -
  let ?pre = "APIObject_members D (Integration.APIObject i)"
  let ?ms = "promoted Integration_keys ?pre @ present (Integration_fields D i)"
  have keys: "fst ` set (Integration_fields D i) \<subseteq> set Integration_keys"
    by (simp add: Integration_fields_def Integration_keys_def)
  have api: "promoted Integration_keys ?ms = promoted Integration_keys ?pre"
    by (rule promoted_embedded [OF keys])
  have own: "k \<in> set Integration_keys \<Longrightarrow>
               member ?ms k =
               or_null (case map_of (Integration_fields D i) k of None \<Rightarrow> None | Some v \<Rightarrow> v)"
    for k
    by (simp add: member_promoted_append member_present Integration_fields_def)
  have read: "Integration_fromJSON D (Integration_toJSON D i) = Integration_read D ?ms"
    by (simp add: Integration_fromJSON_def Integration_toJSON_def)
  have "Integration_read D ?ms = Inr i \<longleftrightarrow> Integration_reads_back D i"
    unfolding Integration_read_def api
    apply (simp add: own Integration_keys_member)
    apply (simp add: Integration_fields_def and_then_eq_Inr Integration_eq_iff)
    apply (auto simp: Integration_reads_back_def APIObject_reads_back_def valid_utf8_def)
    done
  with read show ?thesis by simp
qed

lemma Integration_slice_iff [simp]:
  "slice_fromJSON (Integration_fromJSON D)
     (or_null (omitempty_slice (Integration_toJSON D) xs)) = Inr xs \<longleftrightarrow>
   list_all (Integration_reads_back D) xs"
  by (simp add: slice_roundtrip_iff)

lemma Team_slice_iff [simp]:
  "slice_fromJSON (value_fromJSON (Team_zero D) (Team_fromJSON D))
     (or_null (omitempty_slice (Team_toJSON D) xs)) = Inr xs \<longleftrightarrow>
   list_all (Team_reads_back D) xs"
  by (simp add: slice_roundtrip_iff Team_reads_back_def list_all_iff)

lemma Service_keys_member:
  "''name'' \<in> set Service_keys" "''description'' \<in> set Service_keys"
  "''auto_resolve_timeout'' \<in> set Service_keys"
  "''acknowledgement_timeout'' \<in> set Service_keys"
  "''created_at'' \<in> set Service_keys" "''status'' \<in> set Service_keys"
  "''last_incident_timestamp'' \<in> set Service_keys" "''integrations'' \<in> set Service_keys"
  "''escalation_policy'' \<in> set Service_keys" "''teams'' \<in> set Service_keys"
  "''incident_urgency_rule'' \<in> set Service_keys" "''support_hours'' \<in> set Service_keys"
  "''scheduled_actions'' \<in> set Service_keys" "''alert_creation'' \<in> set Service_keys"
  "''alert_grouping'' \<in> set Service_keys" "''alert_grouping_timeout'' \<in> set Service_keys"
  "''alert_grouping_parameters'' \<in> set Service_keys"
  by (simp_all add: Service_keys_def)

lemma Service_eq_iff:
  "r = s \<longleftrightarrow>
     Service.APIObject r = Service.APIObject s
     \<and> Service.Name r = Service.Name s
     \<and> Description r = Description s
     \<and> AutoResolveTimeout r = AutoResolveTimeout s
     \<and> AcknowledgementTimeout r = AcknowledgementTimeout s
     \<and> CreateAt r = CreateAt s
     \<and> Status r = Status s
     \<and> LastIncidentTimestamp r = LastIncidentTimestamp s
     \<and> Integrations r = Integrations s
     \<and> EscalationPolicy r = EscalationPolicy s
     \<and> Teams r = Teams s
     \<and> IncidentUrgencyRule r = IncidentUrgencyRule s
     \<and> SupportHours r = SupportHours s
     \<and> ScheduledActions r = ScheduledActions s
     \<and> AlertCreation r = AlertCreation s
     \<and> AlertGrouping r = AlertGrouping s
     \<and> AlertGroupingTimeout r = AlertGroupingTimeout s
     \<and> AlertGroupingParameters r = AlertGroupingParameters s"
  for r s :: "('x, 'ep, 'team) Service"
  by (cases r, cases s) auto

lemma Service_roundtrip_iff:
  "Service_fromJSON D (Service_toJSON D s) = Inr s \<longleftrightarrow> Service_reads_back D s"
proof -
  let ?pre = "APIObject_members D (Service.APIObject s)"
  let ?ms = "promoted Service_keys ?pre @ present (Service_fields D s)"
  have keys: "fst ` set (Service_fields D s) \<subseteq> set Service_keys"
    by (simp add: Service_fields_def Service_keys_def)
  have api: "promoted Service_keys ?ms = promoted Service_keys ?pre"
    by (rule promoted_embedded [OF keys])
  have own: "k \<in> set Service_keys \<Longrightarrow>
               member ?ms k =
               or_null (case map_of (Service_fields D s) k of None \<Rightarrow> None | Some v \<Rightarrow> v)"
    for k
    by (simp add: member_promoted_append member_present Service_fields_def)
  have read: "Service_fromJSON D (Service_toJSON D s) = Service_read D ?ms"
    by (simp add: Service_fromJSON_def Service_toJSON_def)
  have "Service_read D ?ms = Inr s \<longleftrightarrow> Service_reads_back D s"
    unfolding Service_read_def api
    apply (simp add: own Service_keys_member)
    apply (simp add: Service_fields_def and_then_eq_Inr Service_eq_iff)
    apply (auto simp: Service_reads_back_def APIObject_reads_back_def
        EscalationPolicy_reads_back_def valid_utf8_def)
    done
  with read show ?thesis by simp
qed


lemma Service_roundtrip_needs_valid_Name:
  "\<not> valid_utf8 (Service.Name s) \<Longrightarrow> Service_fromJSON D (Service_toJSON D s) \<noteq> Inr s"
  by (simp add: Service_roundtrip_iff Service_reads_back_def)





text \<open>
  C7. \<^verbatim>\<open>GetService("PXXXXXX", nil)\<close> against a server that answers with the body
  \<^verbatim>\<open>{"service":{"id":"PXXXXXX","name":"Web"}}\<close> returns no error and a service whose
  \<^verbatim>\<open>ID\<close> is PXXXXXX and whose \<^verbatim>\<open>Name\<close> is Web (its other fields are zero), provided
  \<^verbatim>\<open>APIObject\<close> reads the key \<^verbatim>\<open>id\<close> into \<^verbatim>\<open>ID\<close>.
\<close>

theorem get_service_scenario:
  "APIObject_read D [(''id'', JStr ''PXXXXXX'')] = Inr a \<and> APIObject.ID a = ''PXXXXXX'' \<Longrightarrow>
     GetService query_Values Encode (mock_server e) (Client_decodeJSON (Service_fromJSON D))
        ''PXXXXXX'' None
        [JObj [(''service'', JObj [(''id'', JStr ''PXXXXXX''), (''name'', JStr ''Web'')])]]
     = (Returns (Some ((Service_zero D)\<lparr>Service.APIObject := a, Name := ''Web''\<rparr>), None), [])
   \<and> APIObject.ID (Service.APIObject ((Service_zero D)\<lparr>Service.APIObject := a, Name := ''Web''\<rparr>))
       = ''PXXXXXX''
   \<and> Service.Name ((Service_zero D)\<lparr>Service.APIObject := a, Name := ''Web''\<rparr>) = ''Web''"
  by (simp add: GetService_def mock_server_def serve_def getServiceFromResponse_def
      Client_decodeJSON_def Service_fromJSON_def Service_read_def Service_zero_def
      promoted_def Service_keys_def member_def case_prod_beta)

theorem get_service_scenario_witness:
  "GetService (\<lambda>opts. ([], None)) (\<lambda>v. concat v) (mock_server (Error ''EOF''))
        (Client_decodeJSON (Service_fromJSON example_Declared)) ''PXXXXXX'' None
        [JObj [(''service'', JObj [(''id'', JStr ''PXXXXXX''), (''name'', JStr ''Web'')])]]
     = (Returns (Some ((Service_zero example_Declared)
          \<lparr>Service.APIObject := \<lparr>APIObject.ID = ''PXXXXXX''\<rparr>, Name := ''Web''\<rparr>), None), [])"
  using get_service_scenario [of example_Declared "\<lparr>APIObject.ID = ''PXXXXXX''\<rparr>"
      "\<lambda>opts. ([], None)" "\<lambda>v. concat v" "Error ''EOF''"]
  by (simp add: example_Declared_def member_def)


end
